theory Spec2Isabelle
  imports
    Main
    "HOL-Library.AList"
    "HOL-Library.Char_ord"
    "HOL-Library.List_Lexorder"
    "HOL-Library.Multiset"
    "HOL-Library.Word"
begin

section \<open>Instance type selector: pkg/selector/selector.go\<close>

text \<open>
  A shallow embedding of the filtering core of the selector package. Go pointers that
  the code tests against nil are \<open>option\<close> values, the pair \<open>(value, error)\<close> a Go
  function returns is a sum \<open>error + value\<close> (\<open>Inl\<close> the error), and a run-time panic
  is kept apart from both, as the left summand of an outer sum.
\<close>

subsection \<open>Result truncation\<close>

datatype panic = SliceBoundsOutOfRange int

text \<open>
  \<open>truncateResults\<close>: \<open>maxResults\<close> is a \<open>*int\<close>, the slice expression
  \<open>s[0:upperIndex]\<close> panics when \<open>upperIndex\<close> is negative. After the clamp
  \<open>upperIndex\<close> never exceeds the length, so that is the only way it can fail.
\<close>

definition truncateResults :: "int option \<Rightarrow> 'a list \<Rightarrow> panic + 'a list" where
  "truncateResults maxResults instanceTypeInfoSlice =
     (case maxResults of
        None \<Rightarrow> Inr instanceTypeInfoSlice
      | Some m \<Rightarrow>
          (let upperIndex = (if m > int (length instanceTypeInfoSlice)
                             then int (length instanceTypeInfoSlice) else m)
           in if upperIndex < 0
              then Inl (SliceBoundsOutOfRange upperIndex)
              else Inr (take (nat upperIndex) instanceTypeInfoSlice)))"

subsection \<open>Errors\<close>

text \<open>
  \<open>AWSError\<close> is an error value handed over by the SDK's paging primitive, named by
  its message. \<open>Errorf\<close> is \<open>fmt.Errorf\<close> with a message, \<open>ErrorfW\<close> is
  \<open>fmt.Errorf\<close> with a message ending in \<open>%w\<close> and the error it wraps. The two
  errors of \<open>executeFilters\<close> format pointers with \<open>%s\<close>; they are kept as
  constructors carrying the filter name and the instance type of the message:
  \<open>UnableToProcess\<close> for "Unable to process for filter (...)" and
  \<open>NoFilterHandlerFound\<close> for "No filter handler found for filter (...)".
\<close>

datatype error =
    AWSError string
  | Errorf string
  | ErrorfW string error
  | UnableToProcess string string
  | NoFilterHandlerFound string string

subsection \<open>The location patterns\<close>

text \<open>
  The three patterns use literals, character ranges, counted repetition, an optional
  group and the end anchor. \<open>rmatch r s\<close> lists what is left of \<open>s\<close> after each way
  of matching \<open>r\<close> against a prefix of \<open>s\<close>. All three patterns start with \<open>^\<close>,
  so \<open>regexp.MatchString\<close> holds iff the rest of the pattern matches some prefix of the
  string: that is \<open>MatchString\<close> below. \<open>$\<close> is \<open>Eol\<close>: Go's \<open>$\<close> (no \<open>m\<close> flag)
  matches at the end of the text only. The classes are ASCII, so matching bytes and
  matching runes agree.
\<close>

datatype rexp =
    Eps
  | Lit char
  | Range char char
  | Seq rexp rexp
  | Alt rexp rexp
  | Eol

fun rmatch :: "rexp \<Rightarrow> string \<Rightarrow> string list" where
  "rmatch Eps s = [s]"
| "rmatch (Lit c) s = (case s of [] \<Rightarrow> [] | d # ds \<Rightarrow> if d = c then [ds] else [])"
| "rmatch (Range lo hi) s =
     (case s of [] \<Rightarrow> [] | d # ds \<Rightarrow> if lo \<le> d \<and> d \<le> hi then [ds] else [])"
| "rmatch (Seq a b) s = concat (map (rmatch b) (rmatch a s))"
| "rmatch (Alt a b) s = rmatch a s @ rmatch b s"
| "rmatch Eol s = (if s = [] then [s] else [])"

text \<open>\<open>r{m,n}\<close>, \<open>(r)?\<close> and the concatenation of a pattern's parts.\<close>

fun repeat :: "rexp \<Rightarrow> nat \<Rightarrow> nat \<Rightarrow> rexp" where
  "repeat r 0 0 = Eps"
| "repeat r 0 (Suc n) = Alt (Seq r (repeat r 0 n)) Eps"
| "repeat r (Suc m) n = Seq r (repeat r m (n - 1))"

definition opt :: "rexp \<Rightarrow> rexp" where
  "opt r = Alt r Eps"

fun seq :: "rexp list \<Rightarrow> rexp" where
  "seq [] = Eps"
| "seq (r # rs) = Seq r (seq rs)"

definition MatchString :: "rexp \<Rightarrow> string \<Rightarrow> bool" where
  "MatchString r s = (rmatch r s \<noteq> [])"

abbreviation lower :: rexp where
  "lower \<equiv> Range CHR ''a'' CHR ''z''"

abbreviation digit19 :: rexp where
  "digit19 \<equiv> Range CHR ''1'' CHR ''9''"

text \<open>\<^verbatim>\<open>^[a-z]{2,3}\-([a-z]{1,10}\-)?[a-z]{1,10}\-[1-9]\<close>\<close>

definition regionNameRegex :: rexp where
  "regionNameRegex =
     seq [repeat lower 2 3, Lit CHR ''-'',
          opt (seq [repeat lower 1 10, Lit CHR ''-'']),
          repeat lower 1 10, Lit CHR ''-'', digit19]"

text \<open>\<^verbatim>\<open>^[a-z]{3}[1-9]{1}\-az[1-9]$\<close>\<close>

definition zoneIDRegex :: rexp where
  "zoneIDRegex =
     seq [repeat lower 3 3, repeat digit19 1 1, Lit CHR ''-'',
          Lit CHR ''a'', Lit CHR ''z'', digit19, Eol]"

text \<open>\<^verbatim>\<open>^[a-z]{2,3}\-([a-z]{1,10}\-)?[a-z]{1,10}\-[1-9][a-z]$\<close>\<close>

definition zoneNameRegex :: rexp where
  "zoneNameRegex =
     seq [repeat lower 2 3, Lit CHR ''-'',
          opt (seq [repeat lower 1 10, Lit CHR ''-'']),
          repeat lower 1 10, Lit CHR ''-'', digit19, lower, Eol]"

definition locationFilterKey :: string where
  "locationFilterKey = ''location''"

definition zoneIDLocationType :: string where
  "zoneIDLocationType = ''availability-zone-id''"

definition zoneNameLocationType :: string where
  "zoneNameLocationType = ''availability-zone''"

definition regionNameLocationType :: string where
  "regionNameLocationType = ''region''"

subsection \<open>The EC2 client\<close>

text \<open>
  The SDK's types, with the fields this file reads. The SDK declares them as pointers;
  the code dereferences \<open>InstanceType\<close>, \<open>Location\<close> and the nested structs
  \<open>ProcessorInfo\<close>, \<open>VCpuInfo\<close>, \<open>MemoryInfo\<close>, \<open>PlacementGroupInfo\<close> and
  \<open>NetworkInfo\<close> without a nil check, so a record of the model always has them. The
  fields it hands on as pointers are \<open>option\<close> values. \<open>int64\<close> and \<open>int\<close>
  values are \<open>int\<close>: this file does no arithmetic on them. A \<open>float64\<close> is its 64
  bits: it is only handed on.
\<close>

type_synonym float64 = "64 word"

record ProcessorInfo =
  SupportedArchitectures :: "string option list"

record VCpuInfo =
  DefaultVCpus :: "int option"

record MemoryInfo =
  SizeInMiB :: "int option"

record PlacementGroupInfo =
  SupportedStrategies :: "string option list"

record NetworkInfo =
  EnaSupport :: "string option"
  MaximumNetworkInterfaces :: "int option"
  NetworkPerformance :: "string option"

record GpuDeviceInfo =
  Count :: "int option"

record GpuInfo =
  Gpus :: "GpuDeviceInfo list"
  TotalGpuMemoryInMiB :: "int option"

record FpgaInfo =
  TotalFpgaMemoryInMiB :: "int option"

record InstanceTypeInfo =
  InstanceType :: string
  FpgaInfo :: "FpgaInfo option"
  ProcessorInfo :: ProcessorInfo
  SupportedUsageClasses :: "string option list"
  SupportedRootDeviceTypes :: "string option list"
  HibernationSupported :: "bool option"
  VCpuInfo :: VCpuInfo
  MemoryInfo :: MemoryInfo
  GpuInfo :: "GpuInfo option"
  PlacementGroupInfo :: PlacementGroupInfo
  Hypervisor :: "string option"
  BareMetal :: "bool option"
  BurstablePerformanceSupported :: "bool option"
  NetworkInfo :: NetworkInfo
  CurrentGeneration :: "bool option"

record InstanceTypeOffering =
  OfferingInstanceType :: string
  Location :: string

record DescribeInstanceTypeOfferingsInput =
  InputFilters :: "(string \<times> string list) list"
  LocationType :: "string option"

text \<open>
  The paging primitives. What the service would answer is a list of responses, one per
  page request: a page, or the failure of the request. \<open>requestPages\<close> is the SDK's
  loop: it requests a page, hands it to the callback, and goes on while the callback
  returns true and a page is left; a failed request ends it with the error. It returns
  the callback's state, the error, and the number of requests it made.
\<close>

datatype 'p response = Page 'p | RequestFailure error

fun requestPages ::
  "'p response list \<Rightarrow> ('s \<Rightarrow> 'p \<Rightarrow> 's \<times> bool) \<Rightarrow> 's \<Rightarrow> 's \<times> error option \<times> nat" where
  "requestPages [] fn s = (s, None, 0)"
| "requestPages (RequestFailure e # rest) fn s = (s, Some e, 1)"
| "requestPages (Page p # rest) fn s =
     (case fn s p of
        (s', True) \<Rightarrow> (case requestPages rest fn s' of (s'', err, n) \<Rightarrow> (s'', err, Suc n))
      | (s', False) \<Rightarrow> (s', None, 1))"

record EC2API =
  InstanceTypeOfferingsResponses ::
    "DescribeInstanceTypeOfferingsInput \<Rightarrow> InstanceTypeOffering list response list"
  InstanceTypesResponses :: "InstanceTypeInfo list response list"

definition DescribeInstanceTypeOfferingsPages ::
  "EC2API \<Rightarrow> DescribeInstanceTypeOfferingsInput \<Rightarrow>
   ('s \<Rightarrow> InstanceTypeOffering list \<Rightarrow> 's \<times> bool) \<Rightarrow> 's \<Rightarrow> 's \<times> error option \<times> nat" where
  "DescribeInstanceTypeOfferingsPages ec2 input fn s =
     requestPages (InstanceTypeOfferingsResponses ec2 input) fn s"

definition DescribeInstanceTypesPages ::
  "EC2API \<Rightarrow> ('s \<Rightarrow> InstanceTypeInfo list \<Rightarrow> 's \<times> bool) \<Rightarrow> 's \<Rightarrow> 's \<times> error option \<times> nat" where
  "DescribeInstanceTypesPages ec2 fn s = requestPages (InstanceTypesResponses ec2) fn s"

text \<open>The calls a function made on the client, in order, with the page requests of each.\<close>

datatype api_call =
    OfferingsCall DescribeInstanceTypeOfferingsInput nat
  | InstanceTypesCall nat

subsection \<open>Location resolution\<close>

text \<open>
  \<open>RetrieveInstanceTypesSupportedInLocation\<close> returns a Go map that is nil for the
  empty location: \<open>None\<close> is the nil map, \<open>Some m\<close> a map that was made.
\<close>

definition offeringsPage ::
  "(string \<rightharpoonup> string) \<Rightarrow> InstanceTypeOffering list \<Rightarrow> (string \<rightharpoonup> string) \<times> bool" where
  "offeringsPage availableInstanceTypes page =
     (foldl (\<lambda>m instanceType. m(OfferingInstanceType instanceType \<mapsto> Location instanceType))
        availableInstanceTypes page, True)"

text \<open>
  The \<open>if\<close>/\<open>else if\<close> chain of \<open>RetrieveInstanceTypesSupportedInLocation\<close>:
  the location type it sets on the request, \<open>None\<close> in the final \<open>else\<close>.
\<close>

definition locationTypeOf :: "string \<Rightarrow> string option" where
  "locationTypeOf zone =
     (if MatchString zoneIDRegex zone then Some zoneIDLocationType
      else if MatchString zoneNameRegex zone then Some zoneNameLocationType
      else if MatchString regionNameRegex zone then Some regionNameLocationType
      else None)"

definition RetrieveInstanceTypesSupportedInLocation ::
  "EC2API \<Rightarrow> string \<Rightarrow> (error + (string \<rightharpoonup> string) option) \<times> api_call list" where
  "RetrieveInstanceTypesSupportedInLocation ec2 zone =
     (if zone = [] then (Inr None, [])
      else
        let instanceTypeOfferingsInput =
              \<lparr>InputFilters = [(locationFilterKey, [zone])], LocationType = None\<rparr>
        in case locationTypeOf zone of
             None \<Rightarrow>
               (Inl (Errorf (''The location passed in ('' @ zone @
                   '') is not a valid zone-id, zone-name, or region name'')), [])
           | Some t \<Rightarrow>
               (let input = instanceTypeOfferingsInput\<lparr>LocationType := Some t\<rparr>
                in case DescribeInstanceTypeOfferingsPages ec2 input offeringsPage Map.empty of
                     (availableInstanceTypes, err, n) \<Rightarrow>
                       (case err of
                          Some er \<Rightarrow>
                            (Inl (ErrorfW
                               ''Encountered an error when describing instance type offerings: '' er),
                             [OfferingsCall input n])
                        | None \<Rightarrow> (Inr (Some availableInstanceTypes), [OfferingsCall input n]))))"

definition isSupportedInLocation :: "(string \<rightharpoonup> string) option \<Rightarrow> string \<Rightarrow> bool" where
  "isSupportedInLocation instanceOfferings instanceType =
     (case instanceOfferings of
        None \<Rightarrow> True
      | Some m \<Rightarrow> (case m instanceType of None \<Rightarrow> False | Some _ \<Rightarrow> True))"

subsection \<open>Filter values and instance specs\<close>

text \<open>
  A \<open>filterPair\<close> holds two \<open>interface{}\<close> values. \<open>executeFilters\<close> switches on
  their dynamic types: a filter value is a pointer to a string, a bool, an
  \<open>IntRangeFilter\<close> or a float64, or a pointer to anything else (\<open>FOther\<close>, the
  \<open>default\<close> case); an instance spec is a slice of string pointers, a pointer to a
  string, a bool, an int64, an int or a float64, or anything else (\<open>SOther\<close>). A nil
  pointer is \<open>None\<close>.
\<close>

text \<open>
  Modelled from the spec: the declaration of \<open>IntRangeFilter\<close> is not in this file.
  A numeric range has a minimum bound and a maximum bound, either may be absent.
\<close>

record IntRangeFilter =
  rangeMin :: "int option"
  rangeMax :: "int option"

datatype filter_val =
    FString "string option"
  | FBool "bool option"
  | FIntRange "IntRangeFilter option"
  | FFloat64 "float64 option"
  | FOther "unit option"

datatype spec_val =
    SStrings "string option list"
  | SString "string option"
  | SBool "bool option"
  | SInt64 "int option"
  | SInt "int option"
  | SFloat64 "float64 option"
  | SOther

record filterPair =
  filterValue :: filter_val
  instanceSpec :: spec_val

text \<open>\<open>reflect.ValueOf(filterVal).IsNil()\<close>\<close>

fun IsNil :: "filter_val \<Rightarrow> bool" where
  "IsNil (FString p) = (p = None)"
| "IsNil (FBool p) = (p = None)"
| "IsNil (FIntRange p) = (p = None)"
| "IsNil (FFloat64 p) = (p = None)"
| "IsNil (FOther p) = (p = None)"

text \<open>
  What this file takes from outside. The comparators, the functions that derive an
  instance spec from a record and the default output function are functions of the
  package that are declared in other files: they are parameters, and a derived spec
  may have any shape. The last two fields are the Go runtime's: the order in which a
  \<open>range\<close> loop visits the entries of the filter map and of the candidate map, which
  the language leaves open.
\<close>

record env =
  isSupportedFromStrings :: "string option list \<Rightarrow> string option \<Rightarrow> bool"
  isSupportedFromString :: "string option \<Rightarrow> string option \<Rightarrow> bool"
  isSupportedWithBool :: "bool option \<Rightarrow> bool option \<Rightarrow> bool"
  isSupportedWithRangeInt64 :: "int option \<Rightarrow> IntRangeFilter option \<Rightarrow> bool"
  isSupportedWithRangeInt :: "int option \<Rightarrow> IntRangeFilter option \<Rightarrow> bool"
  isSupportedWithFloat64 :: "float64 option \<Rightarrow> float64 option \<Rightarrow> bool"
  getTotalGpuMemory :: "GpuInfo option \<Rightarrow> spec_val"
  getTotalGpusCount :: "GpuInfo option \<Rightarrow> spec_val"
  supportSyntaxToBool :: "string option \<Rightarrow> spec_val"
  calculateVCpusToMemoryRatio :: "int option \<Rightarrow> int option \<Rightarrow> spec_val"
  getNetworkPerformance :: "string option \<Rightarrow> spec_val"
  SimpleInstanceTypeOutput :: "InstanceTypeInfo list \<Rightarrow> string list"
  rangeFilters :: "(string \<times> filterPair) list \<Rightarrow> (string \<times> filterPair) list"
  rangeCandidates ::
    "(string \<times> InstanceTypeInfo) list \<Rightarrow> (string \<times> InstanceTypeInfo) list"

definition rangeIsPermutation :: "env \<Rightarrow> bool" where
  "rangeIsPermutation e \<longleftrightarrow>
     (\<forall>t. mset (rangeFilters e t) = mset t) \<and> (\<forall>c. mset (rangeCandidates e c) = mset c)"

subsection \<open>Filter dispatch\<close>

text \<open>
  The body of the loop of \<open>executeFilters\<close> for one entry of the map: \<open>None\<close> when
  the loop goes on to the next entry, \<open>Some\<close> of what the function returns otherwise.
\<close>

definition executeFilter ::
  "env \<Rightarrow> string \<Rightarrow> filterPair \<Rightarrow> string \<Rightarrow> (error + bool) option" where
  "executeFilter e filterName fp instanceType =
     (if IsNil (filterValue fp) then None
      else
        (case filterValue fp of
           FString filter' \<Rightarrow>
             (case instanceSpec fp of
                SStrings iSpec \<Rightarrow>
                  if \<not> isSupportedFromStrings e iSpec filter' then Some (Inr False) else None
              | SString iSpec \<Rightarrow>
                  if \<not> isSupportedFromString e iSpec filter' then Some (Inr False) else None
              | _ \<Rightarrow> Some (Inl (UnableToProcess filterName instanceType)))
         | FBool filter' \<Rightarrow>
             (case instanceSpec fp of
                SBool iSpec \<Rightarrow>
                  if \<not> isSupportedWithBool e iSpec filter' then Some (Inr False) else None
              | _ \<Rightarrow> Some (Inl (UnableToProcess filterName instanceType)))
         | FIntRange filter' \<Rightarrow>
             (case instanceSpec fp of
                SInt64 iSpec \<Rightarrow>
                  if \<not> isSupportedWithRangeInt64 e iSpec filter' then Some (Inr False) else None
              | SInt iSpec \<Rightarrow>
                  if \<not> isSupportedWithRangeInt e iSpec filter' then Some (Inr False) else None
              | _ \<Rightarrow> Some (Inl (UnableToProcess filterName instanceType)))
         | FFloat64 filter' \<Rightarrow>
             (case instanceSpec fp of
                SFloat64 iSpec \<Rightarrow>
                  if \<not> isSupportedWithFloat64 e iSpec filter' then Some (Inr False) else None
              | _ \<Rightarrow> Some (Inl (UnableToProcess filterName instanceType)))
         | FOther _ \<Rightarrow> Some (Inl (NoFilterHandlerFound filterName instanceType))))"

text \<open>
  \<open>executeFilters\<close>: the map is given as the list of its entries in the order the
  \<open>range\<close> loop visits them.
\<close>

fun executeFilters :: "env \<Rightarrow> (string \<times> filterPair) list \<Rightarrow> string \<Rightarrow> error + bool" where
  "executeFilters e [] instanceType = Inr True"
| "executeFilters e ((filterName, fp) # rest) instanceType =
     (case executeFilter e filterName fp instanceType of
        None \<Rightarrow> executeFilters e rest instanceType
      | Some r \<Rightarrow> r)"

subsection \<open>The filter specification\<close>

text \<open>
  Modelled from the spec: the declaration of \<open>Filters\<close> is not in this file. It is a
  record of independently optional fields. \<open>rawFilter\<close> reads \<open>AvailabilityZone\<close>
  and \<open>Region\<close> as string pointers and \<open>MaxResults\<close> is the \<open>*int\<close> of
  \<open>truncateResults\<close>; every other field is only put into a \<open>filterPair\<close>, so it is
  a filter value of any shape. Six fields share their name with a field of the
  SDK's records and carry the suffix \<open>_filter\<close>.
\<close>

record Filters =
  AvailabilityZone :: "string option"
  Region :: "string option"
  MaxResults :: "int option"
  CPUArchitecture :: filter_val
  UsageClass :: filter_val
  RootDeviceType :: filter_val
  HibernationSupported_filter :: filter_val
  VCpusRange :: filter_val
  MemoryRange :: filter_val
  GpuMemoryRange :: filter_val
  GpusRange :: filter_val
  PlacementGroupStrategy :: filter_val
  Hypervisor_filter :: filter_val
  BareMetal_filter :: filter_val
  Burstable :: filter_val
  Fpga :: filter_val
  EnaSupport_filter :: filter_val
  VCpusToMemoryRatio :: filter_val
  CurrentGeneration_filter :: filter_val
  NetworkInterfaces :: filter_val
  NetworkPerformance_filter :: filter_val

definition cpuArchitecture :: string where
  "cpuArchitecture = ''cpuArchitecture''"

definition usageClass :: string where
  "usageClass = ''usageClass''"

definition rootDeviceType :: string where
  "rootDeviceType = ''rootDeviceType''"

definition hibernationSupported :: string where
  "hibernationSupported = ''hibernationSupported''"

definition vcpusRange :: string where
  "vcpusRange = ''vcpusRange''"

definition memoryRange :: string where
  "memoryRange = ''memoryRange''"

definition gpuMemoryRange :: string where
  "gpuMemoryRange = ''gpuMemoryRange''"

definition gpusRange :: string where
  "gpusRange = ''gpusRange''"

definition placementGroupStrategy :: string where
  "placementGroupStrategy = ''placementGroupStrategy''"

definition hypervisor :: string where
  "hypervisor = ''hypervisor''"

definition baremetal :: string where
  "baremetal = ''baremetal''"

definition burstable :: string where
  "burstable = ''burstable''"

definition fpga :: string where
  "fpga = ''fpga''"

definition enaSupport :: string where
  "enaSupport = ''enaSupport''"

definition vcpusToMemoryRatio :: string where
  "vcpusToMemoryRatio = ''vcpusToMemoryRatio''"

definition currentGeneration :: string where
  "currentGeneration = ''currentGeneration''"

definition networkInterfaces :: string where
  "networkInterfaces = ''networkInterfaces''"

definition networkPerformance :: string where
  "networkPerformance = ''networkPerformance''"

text \<open>The map literal of \<open>rawFilter\<close>, entry by entry.\<close>

definition filterToInstanceSpecMappingPairs ::
  "env \<Rightarrow> Filters \<Rightarrow> InstanceTypeInfo \<Rightarrow> (string \<times> filterPair) list" where
  "filterToInstanceSpecMappingPairs e filters instanceTypeInfo =
     (let isFpga = (FpgaInfo instanceTypeInfo \<noteq> None) in
      [(cpuArchitecture,
          \<lparr>filterValue = CPUArchitecture filters,
           instanceSpec = SStrings (SupportedArchitectures (ProcessorInfo instanceTypeInfo))\<rparr>),
       (usageClass,
          \<lparr>filterValue = UsageClass filters,
           instanceSpec = SStrings (SupportedUsageClasses instanceTypeInfo)\<rparr>),
       (rootDeviceType,
          \<lparr>filterValue = RootDeviceType filters,
           instanceSpec = SStrings (SupportedRootDeviceTypes instanceTypeInfo)\<rparr>),
       (hibernationSupported,
          \<lparr>filterValue = HibernationSupported_filter filters,
           instanceSpec = SBool (HibernationSupported instanceTypeInfo)\<rparr>),
       (vcpusRange,
          \<lparr>filterValue = VCpusRange filters,
           instanceSpec = SInt64 (DefaultVCpus (VCpuInfo instanceTypeInfo))\<rparr>),
       (memoryRange,
          \<lparr>filterValue = MemoryRange filters,
           instanceSpec = SInt64 (SizeInMiB (MemoryInfo instanceTypeInfo))\<rparr>),
       (gpuMemoryRange,
          \<lparr>filterValue = GpuMemoryRange filters,
           instanceSpec = getTotalGpuMemory e (GpuInfo instanceTypeInfo)\<rparr>),
       (gpusRange,
          \<lparr>filterValue = GpusRange filters,
           instanceSpec = getTotalGpusCount e (GpuInfo instanceTypeInfo)\<rparr>),
       (placementGroupStrategy,
          \<lparr>filterValue = PlacementGroupStrategy filters,
           instanceSpec = SStrings (SupportedStrategies (PlacementGroupInfo instanceTypeInfo))\<rparr>),
       (hypervisor,
          \<lparr>filterValue = Hypervisor_filter filters,
           instanceSpec = SString (Hypervisor instanceTypeInfo)\<rparr>),
       (baremetal,
          \<lparr>filterValue = BareMetal_filter filters,
           instanceSpec = SBool (BareMetal instanceTypeInfo)\<rparr>),
       (burstable,
          \<lparr>filterValue = Burstable filters,
           instanceSpec = SBool (BurstablePerformanceSupported instanceTypeInfo)\<rparr>),
       (fpga,
          \<lparr>filterValue = Fpga filters, instanceSpec = SBool (Some isFpga)\<rparr>),
       (enaSupport,
          \<lparr>filterValue = EnaSupport_filter filters,
           instanceSpec = supportSyntaxToBool e (EnaSupport (NetworkInfo instanceTypeInfo))\<rparr>),
       (vcpusToMemoryRatio,
          \<lparr>filterValue = VCpusToMemoryRatio filters,
           instanceSpec =
             calculateVCpusToMemoryRatio e (DefaultVCpus (VCpuInfo instanceTypeInfo))
               (SizeInMiB (MemoryInfo instanceTypeInfo))\<rparr>),
       (currentGeneration,
          \<lparr>filterValue = CurrentGeneration_filter filters,
           instanceSpec = SBool (CurrentGeneration instanceTypeInfo)\<rparr>),
       (networkInterfaces,
          \<lparr>filterValue = NetworkInterfaces filters,
           instanceSpec = SInt64 (MaximumNetworkInterfaces (NetworkInfo instanceTypeInfo))\<rparr>),
       (networkPerformance,
          \<lparr>filterValue = NetworkPerformance_filter filters,
           instanceSpec =
             getNetworkPerformance e (NetworkPerformance (NetworkInfo instanceTypeInfo))\<rparr>)])"

subsection \<open>Sorting\<close>

text \<open>
  \<open>sort.Slice\<close> is the library's: it is modelled by the insertion sort the library
  itself runs on short slices, which moves each element to the left while \<open>less\<close>
  holds between it and its left neighbour. \<open>sink\<close> works on the part done, in
  reverse. \<open>strings.Compare\<close> compares byte-wise and lexicographically.
\<close>

fun sink :: "('a \<Rightarrow> 'a \<Rightarrow> bool) \<Rightarrow> 'a \<Rightarrow> 'a list \<Rightarrow> 'a list" where
  "sink less' x [] = [x]"
| "sink less' x (y # ys) = (if less' x y then y # sink less' x ys else x # y # ys)"

definition sort_Slice :: "('a \<Rightarrow> 'a \<Rightarrow> bool) \<Rightarrow> 'a list \<Rightarrow> 'a list" where
  "sort_Slice less' xs = rev (foldl (\<lambda>acc x. sink less' x acc) [] xs)"

definition strings_Compare :: "string \<Rightarrow> string \<Rightarrow> int" where
  "strings_Compare a b = (if a = b then 0 else if a < b then - 1 else 1)"

definition sortInstanceTypeInfo :: "InstanceTypeInfo list \<Rightarrow> InstanceTypeInfo list" where
  "sortInstanceTypeInfo instanceTypeInfoSlice =
     sort_Slice
       (\<lambda>iInstanceInfo jInstanceInfo.
          strings_Compare (InstanceType iInstanceInfo) (InstanceType jInstanceInfo) \<le> 0)
       instanceTypeInfoSlice"

subsection \<open>The candidate aggregator\<close>

text \<open>
  The callback of \<open>rawFilter\<close>. Its state is the pair of the variables it captures:
  the map \<open>instanceTypeCandidates\<close>, an association list with one entry per key, and
  \<open>innerErr\<close>. \<open>rawFilterRecords\<close> is the loop over the records of one page; it
  returns the state and what the callback returns.
\<close>

type_synonym candidates = "(string \<times> InstanceTypeInfo) list"

fun rawFilterRecords ::
  "env \<Rightarrow> Filters \<Rightarrow> (string \<rightharpoonup> string) option \<Rightarrow> candidates \<times> error option \<Rightarrow>
   InstanceTypeInfo list \<Rightarrow> (candidates \<times> error option) \<times> bool" where
  "rawFilterRecords e filters locationInstanceOfferings st [] = (st, True)"
| "rawFilterRecords e filters locationInstanceOfferings st (instanceTypeInfo # rest) =
     (let instanceTypeName = InstanceType instanceTypeInfo;
          c1 = AList.update instanceTypeName instanceTypeInfo (fst st);
          pairs = filterToInstanceSpecMappingPairs e filters instanceTypeInfo;
          c2 = (if \<not> isSupportedInLocation locationInstanceOfferings instanceTypeName
                then AList.delete instanceTypeName c1 else c1)
      in case executeFilters e (rangeFilters e pairs) instanceTypeName of
           Inl innerErr \<Rightarrow> ((c2, Some innerErr), False)
         | Inr isInstanceSupported \<Rightarrow>
             rawFilterRecords e filters locationInstanceOfferings
               (if \<not> isInstanceSupported then AList.delete instanceTypeName c2 else c2, None)
               rest)"

text \<open>The first statement of \<open>rawFilter\<close>: the location it resolves.\<close>

definition locationOf :: "Filters \<Rightarrow> string" where
  "locationOf filters =
     (case AvailabilityZone filters of
        Some az \<Rightarrow> az
      | None \<Rightarrow> (case Region filters of Some r \<Rightarrow> r | None \<Rightarrow> []))"

definition rawFilter ::
  "env \<Rightarrow> EC2API \<Rightarrow> Filters \<Rightarrow> (error + InstanceTypeInfo list) \<times> api_call list" where
  "rawFilter e ec2 filters =
     (let location = locationOf filters
      in case RetrieveInstanceTypesSupportedInLocation ec2 location of
           (Inl err, calls) \<Rightarrow> (Inl err, calls)
         | (Inr locationInstanceOfferings, calls) \<Rightarrow>
             (case DescribeInstanceTypesPages ec2
                     (rawFilterRecords e filters locationInstanceOfferings) ([], None) of
                ((instanceTypeCandidates, innerErr), err, n) \<Rightarrow>
                  (case err of
                     Some er \<Rightarrow> (Inl er, calls @ [InstanceTypesCall n])
                   | None \<Rightarrow>
                       (case innerErr of
                          Some ie \<Rightarrow> (Inl ie, calls @ [InstanceTypesCall n])
                        | None \<Rightarrow>
                            (Inr (sortInstanceTypeInfo
                                    (map snd (rangeCandidates e instanceTypeCandidates))),
                             calls @ [InstanceTypesCall n])))))"

subsection \<open>The entry points\<close>

text \<open>
  A result is \<open>Inl\<close> of a panic, or \<open>Inr\<close> of what the function returns.
\<close>

definition FilterVerbose ::
  "env \<Rightarrow> EC2API \<Rightarrow> Filters \<Rightarrow> (panic + (error + InstanceTypeInfo list)) \<times> api_call list" where
  "FilterVerbose e ec2 filters =
     (case rawFilter e ec2 filters of
        (Inl err, calls) \<Rightarrow> (Inr (Inl err), calls)
      | (Inr instanceTypeInfoSlice, calls) \<Rightarrow>
          (case truncateResults (MaxResults filters) instanceTypeInfoSlice of
             Inl p \<Rightarrow> (Inl p, calls)
           | Inr truncated \<Rightarrow> (Inr (Inr truncated), calls)))"

definition FilterWithOutput ::
  "env \<Rightarrow> EC2API \<Rightarrow> Filters \<Rightarrow> (InstanceTypeInfo list \<Rightarrow> string list) \<Rightarrow>
   (panic + (error + string list)) \<times> api_call list" where
  "FilterWithOutput e ec2 filters outputFn =
     (case rawFilter e ec2 filters of
        (Inl err, calls) \<Rightarrow> (Inr (Inl err), calls)
      | (Inr instanceTypeInfoSlice, calls) \<Rightarrow>
          (case truncateResults (MaxResults filters) instanceTypeInfoSlice of
             Inl p \<Rightarrow> (Inl p, calls)
           | Inr truncated \<Rightarrow> (Inr (Inr (outputFn truncated)), calls)))"

definition Filter ::
  "env \<Rightarrow> EC2API \<Rightarrow> Filters \<Rightarrow> (panic + (error + string list)) \<times> api_call list" where
  "Filter e ec2 filters = FilterWithOutput e ec2 filters (SimpleInstanceTypeOutput e)"

subsection \<open>Notions used in the statements\<close>

text \<open>
  What \<open>rawFilter\<close> computes for one record: the result of filter dispatch on its
  table, and whether the record stays in the candidate map.
\<close>

definition dispatch :: "env \<Rightarrow> Filters \<Rightarrow> InstanceTypeInfo \<Rightarrow> error + bool" where
  "dispatch e filters instanceTypeInfo =
     executeFilters e
       (rangeFilters e (filterToInstanceSpecMappingPairs e filters instanceTypeInfo))
       (InstanceType instanceTypeInfo)"

definition keeps ::
  "env \<Rightarrow> Filters \<Rightarrow> (string \<rightharpoonup> string) option \<Rightarrow> InstanceTypeInfo \<Rightarrow> bool" where
  "keeps e filters locationInstanceOfferings instanceTypeInfo \<longleftrightarrow>
     isSupportedInLocation locationInstanceOfferings (InstanceType instanceTypeInfo) \<and>
     dispatch e filters instanceTypeInfo = Inr True"

text \<open>The candidate map after one record with no dispatch error.\<close>

definition decide ::
  "env \<Rightarrow> Filters \<Rightarrow> (string \<rightharpoonup> string) option \<Rightarrow> candidates \<Rightarrow> InstanceTypeInfo \<Rightarrow>
   candidates" where
  "decide e filters locationInstanceOfferings c instanceTypeInfo =
     (if keeps e filters locationInstanceOfferings instanceTypeInfo
      then AList.update (InstanceType instanceTypeInfo) instanceTypeInfo c
      else AList.delete (InstanceType instanceTypeInfo) c)"

text \<open>The record of a name that comes last in a sequence of records.\<close>

definition lastNamed :: "InstanceTypeInfo list \<Rightarrow> string \<Rightarrow> InstanceTypeInfo option" where
  "lastNamed recs name = find (\<lambda>i. InstanceType i = name) (rev recs)"


definition allNil :: "Filters \<Rightarrow> bool" where
  "allNil f \<longleftrightarrow>
     IsNil (CPUArchitecture f) \<and>
     IsNil (UsageClass f) \<and>
     IsNil (RootDeviceType f) \<and>
     IsNil (HibernationSupported_filter f) \<and>
     IsNil (VCpusRange f) \<and>
     IsNil (MemoryRange f) \<and>
     IsNil (GpuMemoryRange f) \<and>
     IsNil (GpusRange f) \<and>
     IsNil (PlacementGroupStrategy f) \<and>
     IsNil (Hypervisor_filter f) \<and>
     IsNil (BareMetal_filter f) \<and>
     IsNil (Burstable f) \<and>
     IsNil (Fpga f) \<and>
     IsNil (EnaSupport_filter f) \<and>
     IsNil (VCpusToMemoryRatio f) \<and>
     IsNil (CurrentGeneration_filter f) \<and>
     IsNil (NetworkInterfaces f) \<and>
     IsNil (NetworkPerformance_filter f)"


text \<open>
  The invariant of the candidate map: one entry per key, and every record is stored
  under its own name.
\<close>

definition candidatesInv :: "candidates \<Rightarrow> bool" where
  "candidatesInv c \<longleftrightarrow> distinct (map fst c) \<and> (\<forall>(k, v) \<in> set c. InstanceType v = k)"

text \<open>\<open>errors.Unwrap\<close>: the error a \<open>%w\<close> wraps.\<close>

fun Unwrap :: "error \<Rightarrow> error option" where
  "Unwrap (ErrorfW msg err) = Some err"
| "Unwrap _ = None"


subsection \<open>An instance of the parameters, and a small catalog\<close>

text \<open>
  Modelled from the spec: the comparators and the derivations of \<open>comparators.go\<close>
  are not in this file. \<open>specEnv\<close> is one instance of the parameters, used to
  evaluate the model at concrete inputs; every theorem below holds for all of them.
  The comparators follow the rules of the spec: a string filter passes on a set that
  contains it and on a scalar equal to it, a bool filter on an equal bool, a range
  on a value within its inclusive bounds, a missing bound not constraining; an absent
  attribute passes no present filter. The total GPU memory and count are 0 without
  GPU info, enhanced networking is false for \<open>unsupported\<close> only. Floating point is
  outside the model: the ratio is reported absent and float64 values are compared by
  their bits. The default output lists the names. Both \<open>range\<close> loops visit the
  entries in the order of the list.
\<close>

definition inRange :: "int option \<Rightarrow> IntRangeFilter option \<Rightarrow> bool" where
  "inRange v r =
     (case r of
        None \<Rightarrow> True
      | Some rg \<Rightarrow>
          (case v of
             None \<Rightarrow> False
           | Some x \<Rightarrow>
               (case rangeMin rg of None \<Rightarrow> True | Some lo \<Rightarrow> lo \<le> x) \<and>
               (case rangeMax rg of None \<Rightarrow> True | Some hi \<Rightarrow> x \<le> hi)))"

definition specEnv :: env where
  "specEnv =
     \<lparr>isSupportedFromStrings = (\<lambda>vs t. t = None \<or> t \<in> set vs),
      isSupportedFromString = (\<lambda>v t. t = None \<or> v = t),
      isSupportedWithBool = (\<lambda>v t. t = None \<or> v = t),
      isSupportedWithRangeInt64 = inRange,
      isSupportedWithRangeInt = inRange,
      isSupportedWithFloat64 = (\<lambda>v t. t = None \<or> v = t),
      getTotalGpuMemory =
        (\<lambda>g. case g of None \<Rightarrow> SInt64 (Some 0) | Some i \<Rightarrow> SInt64 (TotalGpuMemoryInMiB i)),
      getTotalGpusCount =
        (\<lambda>g. case g of
               None \<Rightarrow> SInt64 (Some 0)
             | Some i \<Rightarrow>
                 SInt64 (Some (sum_list
                   (map (\<lambda>d. case Count d of None \<Rightarrow> 0 | Some c \<Rightarrow> c) (Gpus i))))),
      supportSyntaxToBool =
        (\<lambda>s. case s of None \<Rightarrow> SBool None | Some v \<Rightarrow> SBool (Some (v \<noteq> ''unsupported''))),
      calculateVCpusToMemoryRatio = (\<lambda>v m. SFloat64 None),
      getNetworkPerformance = (\<lambda>s. SInt None),
      SimpleInstanceTypeOutput = map InstanceType,
      rangeFilters = (\<lambda>t. t),
      rangeCandidates = (\<lambda>c. c)\<rparr>"

text \<open>The catalog of the spec's scenarios: a name, the vCPUs, the memory, burstable.\<close>

definition catalogItem :: "string \<Rightarrow> int \<Rightarrow> int \<Rightarrow> bool \<Rightarrow> InstanceTypeInfo" where
  "catalogItem name vcpus mem burst =
     \<lparr>InstanceType = name,
      FpgaInfo = None,
      ProcessorInfo = \<lparr>SupportedArchitectures = [Some ''x86_64'']\<rparr>,
      SupportedUsageClasses = [Some ''on-demand'', Some ''spot''],
      SupportedRootDeviceTypes = [Some ''ebs''],
      HibernationSupported = Some False,
      VCpuInfo = \<lparr>DefaultVCpus = Some vcpus\<rparr>,
      MemoryInfo = \<lparr>SizeInMiB = Some mem\<rparr>,
      GpuInfo = None,
      PlacementGroupInfo = \<lparr>SupportedStrategies = [Some ''cluster'']\<rparr>,
      Hypervisor = Some ''nitro'',
      BareMetal = Some False,
      BurstablePerformanceSupported = Some burst,
      NetworkInfo =
        \<lparr>EnaSupport = Some ''required'', MaximumNetworkInterfaces = Some 3,
         NetworkPerformance = Some ''Up to 10 Gigabit''\<rparr>,
      CurrentGeneration = Some True\<rparr>"

definition m5_large :: InstanceTypeInfo where
  "m5_large = catalogItem ''m5.large'' 2 8192 False"

definition m5_xlarge :: InstanceTypeInfo where
  "m5_xlarge = catalogItem ''m5.xlarge'' 4 16384 False"

definition t3_micro :: InstanceTypeInfo where
  "t3_micro = catalogItem ''t3.micro'' 2 1024 True"

text \<open>The specification with every field nil, each filter with its pointer type.\<close>

definition noFilters :: Filters where
  "noFilters =
     \<lparr>AvailabilityZone = None, Region = None, MaxResults = None,
      CPUArchitecture = FString None, UsageClass = FString None,
      RootDeviceType = FString None, HibernationSupported_filter = FBool None,
      VCpusRange = FIntRange None, MemoryRange = FIntRange None,
      GpuMemoryRange = FIntRange None, GpusRange = FIntRange None,
      PlacementGroupStrategy = FString None, Hypervisor_filter = FString None,
      BareMetal_filter = FBool None, Burstable = FBool None, Fpga = FBool None,
      EnaSupport_filter = FBool None, VCpusToMemoryRatio = FFloat64 None,
      CurrentGeneration_filter = FBool None, NetworkInterfaces = FIntRange None,
      NetworkPerformance_filter = FIntRange None\<rparr>"

text \<open>A client whose catalog comes in two pages and whose offerings are empty.\<close>

definition twoPages :: EC2API where
  "twoPages =
     \<lparr>InstanceTypeOfferingsResponses = (\<lambda>input. [Page []]),
      InstanceTypesResponses = [Page [t3_micro, m5_xlarge], Page [m5_large]]\<rparr>"


text \<open>
  A specification with the burstable filter only, a record that carries the name of
  \<open>t3_micro\<close> and is not burstable, and a client whose catalog has that record on
  its first page and \<open>t3_micro\<close> on its second.
\<close>

definition burstableOnly :: Filters where
  "burstableOnly = noFilters\<lparr>Burstable := FBool (Some True)\<rparr>"

definition t3_micro_fixed :: InstanceTypeInfo where
  "t3_micro_fixed = catalogItem ''t3.micro'' 2 1024 False"

definition nameTwice :: EC2API where
  "nameTwice =
     \<lparr>InstanceTypeOfferingsResponses = (\<lambda>input. [Page []]),
      InstanceTypesResponses = [Page [t3_micro_fixed, m5_large], Page [t3_micro]]\<rparr>"

text \<open>
  A client whose second catalog request fails, and a client whose second offerings
  request fails, with the specification that asks for a zone.
\<close>

definition catalogFails :: EC2API where
  "catalogFails =
     \<lparr>InstanceTypeOfferingsResponses = (\<lambda>input. [Page []]),
      InstanceTypesResponses =
        [Page [m5_large], RequestFailure (AWSError ''RequestLimitExceeded''), Page [t3_micro]]\<rparr>"

definition offeringsFail :: EC2API where
  "offeringsFail =
     \<lparr>InstanceTypeOfferingsResponses =
        (\<lambda>input. [Page [\<lparr>OfferingInstanceType = ''m5.large'', Location = ''use1-az1''\<rparr>],
                  RequestFailure (AWSError ''RequestLimitExceeded'')]),
      InstanceTypesResponses = [Page [m5_large]]\<rparr>"

definition inZone :: Filters where
  "inZone = noFilters\<lparr>AvailabilityZone := Some ''use1-az1''\<rparr>"

text \<open>
  A misconfigured table: parameters whose GPU count has a shape without a comparator
  on records with GPU info, a record with GPU info, a specification with a range on
  the GPU count, and a client whose catalog has that record in the middle of its
  second page.
\<close>

definition mismatchEnv :: env where
  "mismatchEnv =
     specEnv\<lparr>getTotalGpusCount :=
       (\<lambda>g. case g of None \<Rightarrow> SInt64 (Some 0) | Some i \<Rightarrow> SOther)\<rparr>"

definition p3_2xlarge :: InstanceTypeInfo where
  "p3_2xlarge =
     (catalogItem ''p3.2xlarge'' 8 62464 False)
       \<lparr>GpuInfo := Some \<lparr>Gpus = [\<lparr>Count = Some 1\<rparr>], TotalGpuMemoryInMiB = Some 16384\<rparr>\<rparr>"

definition gpusUpTo4 :: Filters where
  "gpusUpTo4 =
     noFilters\<lparr>GpusRange := FIntRange (Some \<lparr>rangeMin = Some 0, rangeMax = Some 4\<rparr>)\<rparr>"

definition gpuCatalog :: EC2API where
  "gpuCatalog =
     \<lparr>InstanceTypeOfferingsResponses = (\<lambda>input. [Page []]),
      InstanceTypesResponses =
        [Page [m5_large, m5_xlarge], Page [t3_micro, p3_2xlarge, m5_large],
         RequestFailure (AWSError ''RequestLimitExceeded'')]\<rparr>"

section \<open>Properties\<close>

subsection \<open>Truncation\<close>

lemma truncateResults_absent: "truncateResults None xs = Inr xs"
  by (simp add: truncateResults_def)

lemma truncateResults_exceeds:
  "int (length xs) < n \<Longrightarrow> truncateResults (Some n) xs = Inr xs"
  by (simp add: truncateResults_def)

lemma truncateResults_zero: "truncateResults (Some 0) xs = Inr []"
  by (simp add: truncateResults_def)

lemma truncateResults_take:
  "0 \<le> n \<Longrightarrow> truncateResults (Some n) xs = Inr (take (nat n) xs)"
  by (simp add: truncateResults_def Let_def)

lemma truncateResults_prefix:
  "truncateResults m xs = Inr ys \<Longrightarrow> ys = take (length ys) xs"
  by (auto simp: truncateResults_def Let_def min_def split: option.splits if_splits)

lemma truncateResults_sorted_wrt:
  "truncateResults m xs = Inr ys \<Longrightarrow> sorted_wrt R xs \<Longrightarrow> sorted_wrt R ys"
  using truncateResults_prefix [of m xs ys] sorted_wrt_take [of R xs "length ys"] by simp

lemma truncateResults_negative:
  "m < 0 \<Longrightarrow> truncateResults (Some m) xs = Inl (SliceBoundsOutOfRange m)"
  by (simp add: truncateResults_def)

text \<open>
  C4. Truncation of a sequence with a requested maximum \<open>N\<close>: an absent \<open>N\<close> and an
  \<open>N\<close> beyond the length return the sequence unchanged, \<open>N = 0\<close> returns the empty
  sequence, and a count \<open>N\<close> within the length returns the first \<open>N\<close> entries.
  Whatever is returned is a prefix of the input, so the order is kept and a sorted
  sequence stays sorted.
\<close>

theorem truncateResults_cases:
  "truncateResults None xs = Inr xs \<and>
   (int (length xs) < n \<longrightarrow> truncateResults (Some n) xs = Inr xs) \<and>
   truncateResults (Some 0) xs = Inr [] \<and>
   (0 \<le> k \<and> k \<le> int (length xs) \<longrightarrow> truncateResults (Some k) xs = Inr (take (nat k) xs)) \<and>
   (truncateResults m xs = Inr ys \<longrightarrow>
      ys = take (length ys) xs \<and> (sorted_wrt R xs \<longrightarrow> sorted_wrt R ys))"
  using truncateResults_absent [of xs] truncateResults_exceeds [of xs n]
    truncateResults_zero [of xs] truncateResults_take [of k xs]
    truncateResults_prefix [of m xs ys] truncateResults_sorted_wrt [of m xs ys R]
  by blast

theorem truncateResults_cases_witness:
  "int (length [m5_large, m5_xlarge, t3_micro]) < 7 \<and>
   truncateResults (Some 7) [m5_large, m5_xlarge, t3_micro] = Inr [m5_large, m5_xlarge, t3_micro] \<and>
   (0::int) \<le> 2 \<and> 2 \<le> int (length [m5_large, m5_xlarge, t3_micro]) \<and>
   truncateResults (Some 2) [m5_large, m5_xlarge, t3_micro] = Inr [m5_large, m5_xlarge] \<and>
   sorted_wrt (\<lambda>a b. InstanceType a < InstanceType b) [m5_large, m5_xlarge, t3_micro] \<and>
   sorted_wrt (\<lambda>a b. InstanceType a < InstanceType b) [m5_large, m5_xlarge]"
  using truncateResults_cases [of "[m5_large, m5_xlarge, t3_micro]" 7 2 "Some 2"
      "[m5_large, m5_xlarge]" "\<lambda>a b. InstanceType a < InstanceType b"]
  by (simp add: m5_large_def m5_xlarge_def t3_micro_def catalogItem_def)

subsection \<open>A negative maximum\<close>

lemma rawFilter_twoPages:
  "fst (rawFilter specEnv twoPages (noFilters\<lparr>MaxResults := Some (- 1)\<rparr>)) =
     Inr [m5_large, m5_xlarge, t3_micro]"
  by code_simp

text \<open>
  C10. With a present, negative \<open>MaxResults\<close> the slice expression of
  \<open>truncateResults\<close> has a negative upper index and panics, for every input
  sequence; so \<open>FilterVerbose\<close>, \<open>FilterWithOutput\<close> and \<open>Filter\<close> panic, instead
  of returning a value or an error, whenever \<open>rawFilter\<close> has returned a sequence.
\<close>

theorem negative_MaxResults_panics:
  "m < 0 \<longrightarrow>
     truncateResults (Some m) xs = Inl (SliceBoundsOutOfRange m) \<and>
     (MaxResults filters = Some m \<and> fst (rawFilter e ec2 filters) = Inr xs \<longrightarrow>
        fst (FilterVerbose e ec2 filters) = Inl (SliceBoundsOutOfRange m) \<and>
        fst (FilterWithOutput e ec2 filters outputFn) = Inl (SliceBoundsOutOfRange m) \<and>
        fst (Filter e ec2 filters) = Inl (SliceBoundsOutOfRange m))"
  by (auto simp: FilterVerbose_def FilterWithOutput_def Filter_def truncateResults_negative
      split: prod.splits sum.splits)

theorem negative_MaxResults_panics_witness:
  "(- 1 :: int) < 0 \<and>
   MaxResults (noFilters\<lparr>MaxResults := Some (- 1)\<rparr>) = Some (- 1) \<and>
   fst (rawFilter specEnv twoPages (noFilters\<lparr>MaxResults := Some (- 1)\<rparr>)) =
     Inr [m5_large, m5_xlarge, t3_micro] \<and>
   truncateResults (Some (- 1)) [m5_large, m5_xlarge, t3_micro] =
     Inl (SliceBoundsOutOfRange (- 1)) \<and>
   fst (FilterVerbose specEnv twoPages (noFilters\<lparr>MaxResults := Some (- 1)\<rparr>)) =
     Inl (SliceBoundsOutOfRange (- 1)) \<and>
   fst (FilterWithOutput specEnv twoPages (noFilters\<lparr>MaxResults := Some (- 1)\<rparr>)
          (map InstanceType)) =
     Inl (SliceBoundsOutOfRange (- 1)) \<and>
   fst (Filter specEnv twoPages (noFilters\<lparr>MaxResults := Some (- 1)\<rparr>)) =
     Inl (SliceBoundsOutOfRange (- 1))"
  using negative_MaxResults_panics [of "- 1" "[m5_large, m5_xlarge, t3_micro]"
      "noFilters\<lparr>MaxResults := Some (- 1)\<rparr>" specEnv twoPages "map InstanceType"]
    rawFilter_twoPages
  by simp

subsection \<open>The location patterns\<close>

lemma in_rmatch_Seq:
  "t \<in> set (rmatch (Seq a b) s) \<longleftrightarrow> (\<exists>u \<in> set (rmatch a s). t \<in> set (rmatch b u))"
  by auto

lemma in_rmatch_Range:
  "t \<in> set (rmatch (Range lo hi) s) \<longleftrightarrow> (\<exists>c. s = c # t \<and> lo \<le> c \<and> c \<le> hi)"
  by (auto split: list.splits)

lemma in_rmatch_Lit:
  "t \<in> set (rmatch (Lit c) s) \<longleftrightarrow> s = c # t"
  by (auto split: list.splits)

lemma MatchString_iff: "MatchString r s \<longleftrightarrow> (\<exists>t. t \<in> set (rmatch r s))"
  by (cases "rmatch r s") (auto simp: MatchString_def)

lemma zoneID_shape:
  assumes "MatchString zoneIDRegex s"
  shows "\<exists>a b c d r. s = a # b # c # d # r \<and> CHR ''a'' \<le> c \<and> CHR ''1'' \<le> d"
proof -
  from assms obtain t where "t \<in> set (rmatch zoneIDRegex s)"
    by (auto simp: MatchString_iff)
  then obtain u v where u: "u \<in> set (rmatch (repeat lower 3 3) s)"
    and v: "v \<in> set (rmatch (repeat digit19 1 1) u)"
    unfolding zoneIDRegex_def seq.simps in_rmatch_Seq by blast
  from u obtain a b c where "s = a # b # c # u" "CHR ''a'' \<le> c"
    by (auto simp: eval_nat_numeral in_rmatch_Range simp del: rmatch.simps(3))
  moreover from v obtain d where "u = d # v" "CHR ''1'' \<le> d"
    by (auto simp: in_rmatch_Range simp del: rmatch.simps(3))
  ultimately show ?thesis by blast
qed

lemma region_prefix_shape:
  assumes "MatchString (Seq (repeat lower 2 3) (Seq (Lit CHR ''-'') R)) s"
  shows "(\<exists>a b r. s = a # b # CHR ''-'' # r) \<or> (\<exists>a b c r. s = a # b # c # CHR ''-'' # r)"
proof -
  from assms obtain u v where u: "u \<in> set (rmatch (repeat lower 2 3) s)"
    and v: "v \<in> set (rmatch (Lit CHR ''-'') u)"
    unfolding MatchString_iff in_rmatch_Seq by blast
  from v have "u = CHR ''-'' # v" by (simp only: in_rmatch_Lit)
  moreover from u have "(\<exists>a b. s = a # b # u) \<or> (\<exists>a b c. s = a # b # c # u)"
    by (auto simp: eval_nat_numeral in_rmatch_Range simp del: rmatch.simps(3))
  ultimately show ?thesis by blast
qed

lemma zoneName_shape:
  "MatchString zoneNameRegex s \<Longrightarrow>
     (\<exists>a b r. s = a # b # CHR ''-'' # r) \<or> (\<exists>a b c r. s = a # b # c # CHR ''-'' # r)"
  unfolding zoneNameRegex_def seq.simps by (rule region_prefix_shape)

lemma regionName_shape:
  "MatchString regionNameRegex s \<Longrightarrow>
     (\<exists>a b r. s = a # b # CHR ''-'' # r) \<or> (\<exists>a b c r. s = a # b # c # CHR ''-'' # r)"
  unfolding regionNameRegex_def seq.simps by (rule region_prefix_shape)

lemma zoneID_not_dash:
  assumes "MatchString zoneIDRegex s"
    and "(\<exists>a b r. s = a # b # CHR ''-'' # r) \<or> (\<exists>a b c r. s = a # b # c # CHR ''-'' # r)"
  shows False
proof -
  from zoneID_shape [OF assms(1)] obtain a b c d r
    where s: "s = a # b # c # d # r" and c: "CHR ''a'' \<le> c" and d: "CHR ''1'' \<le> d"
    by blast
  from assms(2) s have "c = CHR ''-'' \<or> d = CHR ''-''" by auto
  with c d show False by auto
qed

lemma zoneID_not_zoneName: "MatchString zoneIDRegex s \<Longrightarrow> \<not> MatchString zoneNameRegex s"
  using zoneID_not_dash zoneName_shape by blast

lemma zoneID_not_regionName: "MatchString zoneIDRegex s \<Longrightarrow> \<not> MatchString regionNameRegex s"
  using zoneID_not_dash regionName_shape by blast

lemma MatchString_Seq:
  "MatchString (Seq a b) s \<longleftrightarrow> (\<exists>u \<in> set (rmatch a s). MatchString b u)"
  unfolding MatchString_iff in_rmatch_Seq by blast

lemma MatchString_seq_prefix:
  "MatchString (seq (xs @ ys)) s \<Longrightarrow> MatchString (seq xs) s"
proof (induction xs arbitrary: s)
  case Nil
  show ?case by (simp add: MatchString_def)
next
  case (Cons x xs)
  then show ?case unfolding append_Cons seq.simps MatchString_Seq by blast
qed

lemma zoneName_is_regionName:
  assumes "MatchString zoneNameRegex s"
  shows "MatchString regionNameRegex s"
proof -
  have "zoneNameRegex =
      seq ([repeat lower 2 3, Lit CHR ''-'', opt (seq [repeat lower 1 10, Lit CHR ''-'']),
            repeat lower 1 10, Lit CHR ''-'', digit19] @ [lower, Eol])"
    by (simp only: zoneNameRegex_def append_Cons append_Nil)
  with assms show ?thesis
    unfolding regionNameRegex_def using MatchString_seq_prefix by metis
qed

lemma locationTypeOf_None:
  "locationTypeOf zone = None \<longleftrightarrow>
     \<not> MatchString zoneIDRegex zone \<and> \<not> MatchString zoneNameRegex zone \<and>
     \<not> MatchString regionNameRegex zone"
  by (simp add: locationTypeOf_def)

text \<open>
  C6. The region pattern has no end anchor, the other two have one. So a zone name
  such as \<open>us-east-1a\<close> matches the zone-name pattern and the region pattern, and
  a string with anything after a region name, such as \<open>us-east-1-x\<close>, matches the
  region pattern and is sent to the service as a region.
\<close>

theorem patterns_overlap:
  "''us-east-1a'' \<noteq> [] \<and> MatchString zoneNameRegex ''us-east-1a'' \<and>
   MatchString regionNameRegex ''us-east-1a'' \<and>
   MatchString regionNameRegex ''us-east-1-x'' \<and>
   locationTypeOf ''us-east-1-x'' = Some ''region''"
  by code_simp

text \<open>
  What holds of the three patterns: the zone-id pattern excludes the zone-name
  pattern and the region pattern, and the chain tries the patterns in the order
  zone-id, zone-name, region. A string that matches zone-id gets the zone-id type, a
  string that matches zone-name gets the zone-name type, and a string that matches
  region gets the region type when it does not match zone-name.
\<close>

theorem location_classification:
  "\<not> (MatchString zoneIDRegex s \<and> MatchString zoneNameRegex s) \<and>
   \<not> (MatchString zoneIDRegex s \<and> MatchString regionNameRegex s) \<and>
   (MatchString zoneIDRegex z \<longrightarrow> locationTypeOf z = Some zoneIDLocationType) \<and>
   (MatchString zoneNameRegex n \<longrightarrow> locationTypeOf n = Some zoneNameLocationType) \<and>
   (MatchString regionNameRegex r \<and> \<not> MatchString zoneNameRegex r \<longrightarrow>
      locationTypeOf r = Some regionNameLocationType)"
  using zoneID_not_zoneName [of s] zoneID_not_regionName [of s]
    zoneID_not_zoneName [of n] zoneID_not_regionName [of r]
  by (auto simp: locationTypeOf_def)

lemma example_matches:
  "MatchString zoneIDRegex ''use1-az1'' \<and> \<not> MatchString zoneNameRegex ''use1-az1'' \<and>
   \<not> MatchString regionNameRegex ''use1-az1'' \<and>
   MatchString zoneNameRegex ''us-east-1a'' \<and>
   MatchString regionNameRegex ''us-east-1'' \<and> \<not> MatchString zoneNameRegex ''us-east-1''"
  by code_simp

theorem location_classification_witness:
  "MatchString zoneIDRegex ''use1-az1'' \<and> \<not> MatchString zoneNameRegex ''use1-az1'' \<and>
   \<not> MatchString regionNameRegex ''use1-az1'' \<and>
   locationTypeOf ''use1-az1'' = Some ''availability-zone-id'' \<and>
   MatchString zoneNameRegex ''us-east-1a'' \<and>
   locationTypeOf ''us-east-1a'' = Some ''availability-zone'' \<and>
   MatchString regionNameRegex ''us-east-1'' \<and> \<not> MatchString zoneNameRegex ''us-east-1'' \<and>
   locationTypeOf ''us-east-1'' = Some ''region''"
  using location_classification [of "''use1-az1''" "''use1-az1''" "''us-east-1a''" "''us-east-1''"]
    example_matches
  by (simp add: zoneIDLocationType_def zoneNameLocationType_def regionNameLocationType_def)

subsection \<open>Location resolution\<close>

lemma isSupportedInLocation_iff:
  "isSupportedInLocation idx n \<longleftrightarrow> (idx = None \<or> (\<exists>m. idx = Some m \<and> n \<in> dom m))"
  by (auto simp: isSupportedInLocation_def split: option.splits)

lemma Retrieve_empty: "RetrieveInstanceTypesSupportedInLocation ec2 [] = (Inr None, [])"
  by (simp add: RetrieveInstanceTypesSupportedInLocation_def)

text \<open>
  C3. A candidate passes the location check iff the index is absent or the
  candidate's name is a key of the index. The empty location produces no index,
  which is not the empty index (that one rejects every name), and makes no call; so
  with the empty location every name passes the check.
\<close>

theorem location_membership:
  "(isSupportedInLocation idx n \<longleftrightarrow> (idx = None \<or> (\<exists>m. idx = Some m \<and> n \<in> dom m))) \<and>
   RetrieveInstanceTypesSupportedInLocation ec2 [] = (Inr None, []) \<and>
   Some Map.empty \<noteq> (None :: (string \<rightharpoonup> string) option) \<and>
   \<not> isSupportedInLocation (Some Map.empty) n \<and>
   (fst (RetrieveInstanceTypesSupportedInLocation ec2 []) = Inr idx' \<longrightarrow>
      isSupportedInLocation idx' n)"
  using isSupportedInLocation_iff [of idx n] Retrieve_empty [of ec2]
  by (auto simp: isSupportedInLocation_def)

theorem location_membership_witness:
  "fst (RetrieveInstanceTypesSupportedInLocation twoPages []) = Inr None \<and>
   isSupportedInLocation None ''m5.large'' \<and>
   isSupportedInLocation (Some [''m5.large'' \<mapsto> ''use1-az1'']) ''m5.large'' \<and>
   \<not> isSupportedInLocation (Some [''m5.large'' \<mapsto> ''use1-az1'']) ''t3.micro'' \<and>
   \<not> isSupportedInLocation (Some Map.empty) ''m5.large''"
  using location_membership [of None "''m5.large''" twoPages None]
    location_membership [of "Some [''m5.large'' \<mapsto> ''use1-az1'']" "''m5.large''" twoPages None]
    location_membership [of "Some [''m5.large'' \<mapsto> ''use1-az1'']" "''t3.micro''" twoPages None]
  by simp

lemma Retrieve_invalid:
  assumes "zone \<noteq> []" "locationTypeOf zone = None"
  shows "RetrieveInstanceTypesSupportedInLocation ec2 zone =
     (Inl (Errorf (''The location passed in ('' @ zone @
        '') is not a valid zone-id, zone-name, or region name'')), [])"
  using assms by (simp add: RetrieveInstanceTypesSupportedInLocation_def)

lemma rawFilter_location_error:
  assumes "RetrieveInstanceTypesSupportedInLocation ec2 (locationOf filters) = (Inl err, calls)"
  shows "rawFilter e ec2 filters = (Inl err, calls)"
  using assms by (simp add: rawFilter_def locationOf_def)

lemma entry_points_error:
  assumes "rawFilter e ec2 filters = (Inl err, calls)"
  shows "FilterVerbose e ec2 filters = (Inr (Inl err), calls) \<and>
         FilterWithOutput e ec2 filters outputFn = (Inr (Inl err), calls) \<and>
         Filter e ec2 filters = (Inr (Inl err), calls)"
  using assms by (simp add: FilterVerbose_def FilterWithOutput_def Filter_def)

text \<open>
  C7. For a non-empty location that matches none of the three patterns, location
  resolution returns the invalid-location error and has made no call on the client;
  \<open>rawFilter\<close> and \<open>FilterVerbose\<close> return that error, again with no call made:
  neither the offerings nor the catalog are requested.
\<close>

theorem invalid_location_fails:
  assumes "zone \<noteq> []"
    and "\<not> MatchString zoneIDRegex zone" "\<not> MatchString zoneNameRegex zone"
      "\<not> MatchString regionNameRegex zone"
  shows "RetrieveInstanceTypesSupportedInLocation ec2 zone =
           (Inl (Errorf (''The location passed in ('' @ zone @
              '') is not a valid zone-id, zone-name, or region name'')), []) \<and>
         (locationOf filters = zone \<longrightarrow>
            rawFilter e ec2 filters =
              (Inl (Errorf (''The location passed in ('' @ zone @
                 '') is not a valid zone-id, zone-name, or region name'')), []) \<and>
            FilterVerbose e ec2 filters =
              (Inr (Inl (Errorf (''The location passed in ('' @ zone @
                 '') is not a valid zone-id, zone-name, or region name''))), []))"
  using assms Retrieve_invalid [of zone ec2] rawFilter_location_error [of ec2 filters _ "[]" e]
    entry_points_error [of e ec2 filters _ "[]"]
  by (simp add: locationTypeOf_None)

lemma not_a_zone:
  "\<not> MatchString zoneIDRegex ''not-a-zone'' \<and> \<not> MatchString zoneNameRegex ''not-a-zone'' \<and>
   \<not> MatchString regionNameRegex ''not-a-zone''"
  by code_simp

theorem invalid_location_fails_witness:
  "''not-a-zone'' \<noteq> [] \<and>
   \<not> MatchString zoneIDRegex ''not-a-zone'' \<and> \<not> MatchString zoneNameRegex ''not-a-zone'' \<and>
   \<not> MatchString regionNameRegex ''not-a-zone'' \<and>
   locationOf (noFilters\<lparr>Region := Some ''not-a-zone''\<rparr>) = ''not-a-zone'' \<and>
   rawFilter specEnv twoPages (noFilters\<lparr>Region := Some ''not-a-zone''\<rparr>) =
     (Inl (Errorf
        ''The location passed in (not-a-zone) is not a valid zone-id, zone-name, or region name''),
      [])"
  using invalid_location_fails [of "''not-a-zone''" twoPages "noFilters\<lparr>Region := Some ''not-a-zone''\<rparr>" specEnv]
    not_a_zone
  by (simp add: locationOf_def noFilters_def)

subsection \<open>Filter dispatch\<close>

lemma executeFilter_nil: "IsNil (filterValue fp) \<Longrightarrow> executeFilter e n fp it = None"
  by (simp add: executeFilter_def)

lemma executeFilter_not_True: "executeFilter e n fp it \<noteq> Some (Inr True)"
  by (cases "filterValue fp"; cases "instanceSpec fp"; simp add: executeFilter_def)

lemma executeFilter_error_kind:
  "executeFilter e n fp it = Some (Inl er) \<Longrightarrow>
     er = UnableToProcess n it \<or> er = NoFilterHandlerFound n it"
  by (cases "filterValue fp"; cases "instanceSpec fp";
      simp add: executeFilter_def split: if_splits)



lemma executeFilters_True_iff:
  "executeFilters e ps it = Inr True \<longleftrightarrow>
     (\<forall>(n, fp) \<in> set ps. executeFilter e n fp it = None)"
proof (induction ps)
  case Nil
  show ?case by simp
next
  case (Cons p ps)
  obtain n fp where p: "p = (n, fp)" by (cases p)
  show ?case
  proof (cases "executeFilter e n fp it")
    case None
    with Cons p show ?thesis by simp
  next
    case (Some r)
    with executeFilter_not_True [of e n fp it] have "r \<noteq> Inr True" by auto
    with Some p show ?thesis by simp
  qed
qed



lemma executeFilters_all_nil:
  "\<forall>(n, fp) \<in> set ps. IsNil (filterValue fp) \<Longrightarrow> executeFilters e ps it = Inr True"
  by (auto simp: executeFilters_True_iff executeFilter_nil)

lemma executeFilters_error_kind:
  "executeFilters e ps it = Inl er \<Longrightarrow>
     \<exists>n. er = UnableToProcess n it \<or> er = NoFilterHandlerFound n it"
proof (induction ps)
  case Nil
  then show ?case by simp
next
  case (Cons p ps)
  obtain n fp where p: "p = (n, fp)" by (cases p)
  show ?case
  proof (cases "executeFilter e n fp it")
    case None
    with Cons p show ?thesis by simp
  next
    case (Some r)
    with Cons.prems p have "executeFilter e n fp it = Some (Inl er)" by simp
    then show ?thesis using executeFilter_error_kind by blast
  qed
qed


text \<open>Acceptance does not depend on the order of the entries.\<close>

lemma executeFilters_True_set:
  "set ps = set qs \<Longrightarrow>
     executeFilters e ps it = Inr True \<longleftrightarrow> executeFilters e qs it = Inr True"
  by (simp add: executeFilters_True_iff)




lemma table_allNil:
  "allNil f \<Longrightarrow> \<forall>(n, fp) \<in> set (filterToInstanceSpecMappingPairs e f i). IsNil (filterValue fp)"
  by (simp add: allNil_def filterToInstanceSpecMappingPairs_def)

lemma rangeFilters_set: "rangeIsPermutation e \<Longrightarrow> set (rangeFilters e t) = set t"
  by (metis rangeIsPermutation_def set_mset_mset)

lemma dispatch_True_iff:
  "rangeIsPermutation e \<Longrightarrow>
     dispatch e f i = Inr True \<longleftrightarrow>
       executeFilters e (filterToInstanceSpecMappingPairs e f i) (InstanceType i) = Inr True"
  unfolding dispatch_def by (rule executeFilters_True_set) (rule rangeFilters_set)


lemma dispatch_allNil:
  assumes "rangeIsPermutation e" "allNil f"
  shows "dispatch e f i = Inr True"
proof -
  have "executeFilters e (filterToInstanceSpecMappingPairs e f i) (InstanceType i) = Inr True"
    using table_allNil [OF assms(2)] by (rule executeFilters_all_nil)
  with assms(1) show ?thesis by (simp only: dispatch_True_iff)
qed

lemma rangeIsPermutation_specEnv: "rangeIsPermutation specEnv"
  by (simp add: rangeIsPermutation_def specEnv_def)












subsection \<open>Sorting\<close>

lemma mset_sink: "mset (sink le x ys) = add_mset x (mset ys)"
  by (induction ys) simp_all

lemma set_sink: "set (sink le x ys) = insert x (set ys)"
  by (induction ys) auto

lemma mset_foldl_sink:
  "mset (foldl (\<lambda>acc x. sink le x acc) acc xs) = mset acc + mset xs"
  by (induction xs arbitrary: acc) (simp_all add: mset_sink)

lemma mset_sort_Slice: "mset (sort_Slice le xs) = mset xs"
  by (simp add: sort_Slice_def mset_foldl_sink)

lemma sorted_sink:
  fixes key :: "'a \<Rightarrow> 'k::linorder"
  assumes "sorted_wrt (\<lambda>a b. key b \<le> key a) ys"
  shows "sorted_wrt (\<lambda>a b. key b \<le> key a) (sink (\<lambda>a b. key a \<le> key b) x ys)"
  using assms by (induction ys) (auto simp: set_sink)

lemma sorted_foldl_sink:
  fixes key :: "'a \<Rightarrow> 'k::linorder"
  assumes "sorted_wrt (\<lambda>a b. key b \<le> key a) acc"
  shows "sorted_wrt (\<lambda>a b. key b \<le> key a)
           (foldl (\<lambda>acc x. sink (\<lambda>a b. key a \<le> key b) x acc) acc xs)"
  using assms by (induction xs arbitrary: acc) (simp_all add: sorted_sink)

lemma sorted_sort_Slice:
  fixes key :: "'a \<Rightarrow> 'k::linorder"
  shows "sorted_wrt (\<lambda>a b. key a \<le> key b) (sort_Slice (\<lambda>a b. key a \<le> key b) xs)"
  using sorted_foldl_sink [of key "[]" xs] by (simp add: sort_Slice_def sorted_wrt_rev)

lemma strings_Compare_le: "strings_Compare a b \<le> 0 \<longleftrightarrow> a \<le> b"
  by (auto simp: strings_Compare_def)

lemma sortInstanceTypeInfo_eq:
  "sortInstanceTypeInfo xs = sort_Slice (\<lambda>a b. InstanceType a \<le> InstanceType b) xs"
  by (simp add: sortInstanceTypeInfo_def strings_Compare_le)

lemma mset_sortInstanceTypeInfo: "mset (sortInstanceTypeInfo xs) = mset xs"
  by (simp add: sortInstanceTypeInfo_eq mset_sort_Slice)

lemma set_sortInstanceTypeInfo: "set (sortInstanceTypeInfo xs) = set xs"
  using mset_sortInstanceTypeInfo [of xs] by (metis set_mset_mset)

lemma sorted_sortInstanceTypeInfo:
  "sorted (map InstanceType (sortInstanceTypeInfo xs))"
  using sorted_sort_Slice [of InstanceType xs]
  by (simp add: sortInstanceTypeInfo_eq sorted_wrt_map)

lemma distinct_sortInstanceTypeInfo:
  "distinct (map InstanceType (sortInstanceTypeInfo xs)) = distinct (map InstanceType xs)"
proof -
  have "mset (map InstanceType (sortInstanceTypeInfo xs)) = mset (map InstanceType xs)"
    by (simp add: mset_sortInstanceTypeInfo)
  then show ?thesis by (rule mset_eq_imp_distinct_iff)
qed

lemma strict_sortInstanceTypeInfo:
  assumes "distinct (map InstanceType xs)"
  shows "sorted_wrt (\<lambda>a b. InstanceType a < InstanceType b) (sortInstanceTypeInfo xs)"
proof -
  have "sorted_wrt (<) (map InstanceType (sortInstanceTypeInfo xs))"
    using assms sorted_sortInstanceTypeInfo [of xs]
    by (simp add: strict_sorted_iff distinct_sortInstanceTypeInfo)
  then show ?thesis by (simp add: sorted_wrt_map)
qed

text \<open>With distinct names the sorted sequence does not depend on the order it starts from.\<close>

lemma sortInstanceTypeInfo_permutation:
  assumes "mset xs = mset ys" "distinct (map InstanceType xs)"
  shows "sortInstanceTypeInfo xs = sortInstanceTypeInfo ys"
proof -
  let ?a = "sortInstanceTypeInfo xs" and ?b = "sortInstanceTypeInfo ys"
  from assms have dy: "distinct (map InstanceType ys)"
    by (metis mset_eq_imp_distinct_iff mset_map)
  from assms(1) have sets: "set ?a = set xs" "set ?b = set xs"
    by (simp_all add: set_sortInstanceTypeInfo) (metis set_mset_mset)
  have "sorted_wrt (<) (map InstanceType ?a)" "sorted_wrt (<) (map InstanceType ?b)"
    using assms(2) dy sorted_sortInstanceTypeInfo
    by (simp_all add: strict_sorted_iff distinct_sortInstanceTypeInfo)
  moreover have "set (map InstanceType ?b) = set (map InstanceType ?a)"
    using sets by simp
  ultimately have names: "map InstanceType ?b = map InstanceType ?a"
    by (rule strict_sorted_equal)
  from assms(2) have "inj_on InstanceType (set xs)" by (simp add: distinct_map)
  with sets have "inj_on InstanceType (set ?a \<union> set ?b)" by simp
  with names show ?thesis by (metis map_inj_on)
qed

subsection \<open>Paging\<close>

lemma requestPages_continue:
  assumes "\<And>s p. p \<in> set ps \<Longrightarrow> snd (fn s p)"
  shows "requestPages (map Page ps @ rest) fn s =
     (case requestPages rest fn (foldl (\<lambda>s p. fst (fn s p)) s ps) of
        (s', err, k) \<Rightarrow> (s', err, length ps + k))"
  using assms
proof (induction ps arbitrary: s)
  case Nil
  show ?case by (simp split: prod.splits)
next
  case (Cons p ps)
  from Cons.prems [of p s] obtain s1 where s1: "fn s p = (s1, True)"
    by (cases "fn s p") auto
  have "requestPages (map Page ps @ rest) fn s1 =
     (case requestPages rest fn (foldl (\<lambda>s p. fst (fn s p)) s1 ps) of
        (s', err, k) \<Rightarrow> (s', err, length ps + k))"
    by (rule Cons.IH) (simp add: Cons.prems)
  with s1 show ?case by (simp split: prod.splits)
qed

lemma requestPages_failure:
  "requestPages (RequestFailure er # rest) fn s = (s, Some er, 1)"
  by simp

lemma requestPages_stop:
  "snd (fn s p) = False \<Longrightarrow> requestPages (Page p # rest) fn s = (fst (fn s p), None, 1)"
  by (cases "fn s p") auto

subsection \<open>The candidate map\<close>

lemma rawFilterRecords_step:
  assumes "dispatch e f i = Inr b"
  shows "rawFilterRecords e f loc (c, ie) (i # rest) =
           rawFilterRecords e f loc (decide e f loc c i, None) rest"
  using assms
  by (cases b)
    (simp_all add: dispatch_def decide_def keeps_def Let_def delete_update_same delete_idem)

lemma rawFilterRecords_ok:
  assumes "\<forall>i \<in> set p. \<not> isl (dispatch e f i)"
  shows "rawFilterRecords e f loc (c, None) p = ((foldl (decide e f loc) c p, None), True)"
  using assms
proof (induction p arbitrary: c)
  case Nil
  show ?case by simp
next
  case (Cons i p)
  from Cons.prems obtain b where b: "dispatch e f i = Inr b"
    by (cases "dispatch e f i") auto
  from Cons.prems have "rawFilterRecords e f loc (decide e f loc c i, None) p =
      ((foldl (decide e f loc) (decide e f loc c i) p, None), True)"
    by (intro Cons.IH) simp
  with rawFilterRecords_step [OF b] show ?case by simp
qed

lemma rawFilterRecords_error:
  assumes "\<forall>i \<in> set pre. \<not> isl (dispatch e f i)" "dispatch e f r = Inl er"
  shows "\<exists>c'. rawFilterRecords e f loc (c, ie) (pre @ r # post) = ((c', Some er), False)"
  using assms(1)
proof (induction pre arbitrary: c ie)
  case Nil
  from assms(2) show ?case by (simp add: dispatch_def Let_def)
next
  case (Cons i pre)
  from Cons.prems obtain b where b: "dispatch e f i = Inr b"
    by (cases "dispatch e f i") auto
  from Cons.prems have "\<exists>c'. rawFilterRecords e f loc (decide e f loc c i, None) (pre @ r # post) =
      ((c', Some er), False)"
    by (intro Cons.IH) simp
  with rawFilterRecords_step [OF b] show ?case by simp
qed

lemma foldl_pages_ok:
  assumes "\<forall>p \<in> set ps. \<forall>i \<in> set p. \<not> isl (dispatch e f i)"
  shows "foldl (\<lambda>s p. fst (rawFilterRecords e f loc s p)) (c, None) ps =
           (foldl (decide e f loc) c (concat ps), None)"
  using assms
  by (induction ps arbitrary: c) (simp_all add: rawFilterRecords_ok)

lemma pages_continue:
  assumes "\<forall>p \<in> set ps. \<forall>i \<in> set p. \<not> isl (dispatch e f i)"
  shows "requestPages (map Page ps @ rest) (rawFilterRecords e f loc) (c, None) =
     (case requestPages rest (rawFilterRecords e f loc)
             (foldl (decide e f loc) c (concat ps), None) of
        (s', err, k) \<Rightarrow> (s', err, length ps + k))"
proof -
  have "\<And>s p. p \<in> set ps \<Longrightarrow> snd (rawFilterRecords e f loc s p)"
  proof -
    fix s :: "candidates \<times> error option" and p
    assume "p \<in> set ps"
    with assms have ok: "\<forall>i \<in> set p. \<not> isl (dispatch e f i)" by simp
    show "snd (rawFilterRecords e f loc s p)"
    proof (cases p)
      case Nil
      then show ?thesis by simp
    next
      case (Cons i q)
      with ok obtain b where b: "dispatch e f i = Inr b"
        by (cases "dispatch e f i") auto
      from ok Cons have "\<forall>j \<in> set q. \<not> isl (dispatch e f j)" by simp
      from rawFilterRecords_ok [OF this] rawFilterRecords_step [OF b] Cons
      show ?thesis by (cases s) simp
    qed
  qed
  from requestPages_continue [of ps "rawFilterRecords e f loc" rest "(c, None)", OF this]
  show ?thesis by (simp only: foldl_pages_ok [OF assms])
qed

lemma set_update_subset: "set (AList.update k v c) \<subseteq> insert (k, v) (set c)"
  by (induction c) auto

lemma set_delete_subset: "set (AList.delete k c) \<subseteq> set c"
  by (auto simp: AList.delete_eq)

lemma candidatesInv_decide: "candidatesInv c \<Longrightarrow> candidatesInv (decide e f loc c i)"
  using set_update_subset [of "InstanceType i" i c] set_delete_subset [of "InstanceType i" c]
  by (auto simp: candidatesInv_def decide_def distinct_update distinct_delete)

lemma candidatesInv_foldl:
  "candidatesInv c \<Longrightarrow> candidatesInv (foldl (decide e f loc) c recs)"
  by (induction recs arbitrary: c) (simp_all add: candidatesInv_decide)

lemma map_of_decide:
  "map_of (decide e f loc c i) n =
     (if InstanceType i = n then (if keeps e f loc i then Some i else None) else map_of c n)"
  by (simp add: decide_def update_conv' delete_conv')

lemma find_append_cases:
  "find P (xs @ ys) = (case find P xs of None \<Rightarrow> find P ys | Some x \<Rightarrow> Some x)"
  by (induction xs) simp_all

lemma lastNamed_Cons:
  "lastNamed (i # recs) n =
     (case lastNamed recs n of
        None \<Rightarrow> (if InstanceType i = n then Some i else None)
      | Some j \<Rightarrow> Some j)"
  by (simp add: lastNamed_def find_append_cases split: option.splits)

lemma map_of_foldl_decide:
  "map_of (foldl (decide e f loc) c recs) n =
     (case lastNamed recs n of
        None \<Rightarrow> map_of c n
      | Some i \<Rightarrow> (if keeps e f loc i then Some i else None))"
proof (induction recs arbitrary: c)
  case Nil
  show ?case by (simp add: lastNamed_def)
next
  case (Cons i recs)
  show ?case
    by (simp add: Cons.IH [of "decide e f loc c i"] lastNamed_Cons map_of_decide
        split: option.splits)
qed

lemma candidatesInv_values:
  assumes "candidatesInv c"
  shows "i \<in> set (map snd c) \<longleftrightarrow> map_of c (InstanceType i) = Some i"
proof
  assume "i \<in> set (map snd c)"
  then obtain k where "(k, i) \<in> set c" by auto
  with assms show "map_of c (InstanceType i) = Some i"
    by (auto simp: candidatesInv_def)
next
  assume "map_of c (InstanceType i) = Some i"
  then have "(InstanceType i, i) \<in> set c" by (rule map_of_SomeD)
  then show "i \<in> set (map snd c)" by force
qed

lemma candidatesInv_names:
  assumes "candidatesInv c"
  shows "distinct (map InstanceType (map snd c))"
proof -
  from assms have "\<forall>x \<in> set c. (InstanceType \<circ> snd) x = fst x"
    by (auto simp: candidatesInv_def)
  then have eq: "map (InstanceType \<circ> snd) c = map fst c"
    by (simp only: map_eq_conv)
  from assms have "distinct (map fst c)" by (simp add: candidatesInv_def)
  then show ?thesis by (simp only: map_map eq)
qed

lemma lastNamed_name: "lastNamed recs n = Some i \<Longrightarrow> InstanceType i = n"
  unfolding lastNamed_def by (auto simp: find_Some_iff)

lemma values_foldl_decide:
  "i \<in> set (map snd (foldl (decide e f loc) [] recs)) \<longleftrightarrow>
     lastNamed recs (InstanceType i) = Some i \<and> keeps e f loc i"
proof -
  have "candidatesInv (foldl (decide e f loc) [] recs)"
    by (rule candidatesInv_foldl) (simp add: candidatesInv_def)
  then have "i \<in> set (map snd (foldl (decide e f loc) [] recs)) \<longleftrightarrow>
      map_of (foldl (decide e f loc) [] recs) (InstanceType i) = Some i"
    by (rule candidatesInv_values)
  also have "\<dots> \<longleftrightarrow> lastNamed recs (InstanceType i) = Some i \<and> keeps e f loc i"
    by (cases "lastNamed recs (InstanceType i)") (auto simp: map_of_foldl_decide)
  finally show ?thesis .
qed

lemma rangeCandidates_mset:
  "rangeIsPermutation e \<Longrightarrow> mset (map snd (rangeCandidates e c)) = mset (map snd c)"
  by (simp add: rangeIsPermutation_def)

lemma sort_rangeCandidates:
  assumes "rangeIsPermutation e" "candidatesInv c"
  shows "sortInstanceTypeInfo (map snd (rangeCandidates e c)) = sortInstanceTypeInfo (map snd c)"
proof (rule sortInstanceTypeInfo_permutation)
  show "mset (map snd (rangeCandidates e c)) = mset (map snd c)"
    using assms(1) by (rule rangeCandidates_mset)
  then have "mset (map InstanceType (map snd (rangeCandidates e c))) =
      mset (map InstanceType (map snd c))"
    by (metis mset_map)
  with candidatesInv_names [OF assms(2)]
  show "distinct (map InstanceType (map snd (rangeCandidates e c)))"
    by (metis mset_eq_imp_distinct_iff)
qed

lemma update_fresh: "k \<notin> fst ` set c \<Longrightarrow> AList.update k v c = c @ [(k, v)]"
  by (induction c) auto

lemma foldl_decide_all_kept:
  assumes "\<forall>i \<in> set recs. keeps e f loc i" "distinct (map InstanceType recs)"
    "InstanceType ` set recs \<inter> fst ` set c = {}"
  shows "foldl (decide e f loc) c recs = c @ map (\<lambda>i. (InstanceType i, i)) recs"
  using assms
proof (induction recs arbitrary: c)
  case Nil
  show ?case by simp
next
  case (Cons i recs)
  from Cons.prems have d: "decide e f loc c i = c @ [(InstanceType i, i)]"
    by (simp add: decide_def update_fresh)
  from Cons.prems have "foldl (decide e f loc) (c @ [(InstanceType i, i)]) recs =
      (c @ [(InstanceType i, i)]) @ map (\<lambda>i. (InstanceType i, i)) recs"
    by (intro Cons.IH) auto
  with d show ?case by simp
qed

subsection \<open>The outcomes of \<open>rawFilter\<close>\<close>

lemma rawFilter_success:
  assumes loc: "RetrieveInstanceTypesSupportedInLocation ec2 (locationOf f) = (Inr loc, calls)"
    and pages: "InstanceTypesResponses ec2 = map Page ps"
    and ok: "\<forall>p \<in> set ps. \<forall>i \<in> set p. \<not> isl (dispatch e f i)"
  shows "rawFilter e ec2 f =
     (Inr (sortInstanceTypeInfo
             (map snd (rangeCandidates e (foldl (decide e f loc) [] (concat ps))))),
      calls @ [InstanceTypesCall (length ps)])"
proof -
  have "requestPages (map Page ps @ []) (rawFilterRecords e f loc) ([], None) =
      ((foldl (decide e f loc) [] (concat ps), None), None, length ps)"
    by (simp only: pages_continue [OF ok]) simp
  with loc pages show ?thesis
    by (simp add: rawFilter_def DescribeInstanceTypesPages_def)
qed

lemma rawFilter_dispatch_error:
  assumes loc: "RetrieveInstanceTypesSupportedInLocation ec2 (locationOf f) = (Inr loc, calls)"
    and pages: "InstanceTypesResponses ec2 = map Page ps @ Page (pre @ r # post) # rest"
    and ok: "\<forall>p \<in> set ps. \<forall>i \<in> set p. \<not> isl (dispatch e f i)"
    and pre: "\<forall>i \<in> set pre. \<not> isl (dispatch e f i)"
    and err: "dispatch e f r = Inl er"
  shows "rawFilter e ec2 f = (Inl er, calls @ [InstanceTypesCall (length ps + 1)])"
proof -
  let ?c = "foldl (decide e f loc) [] (concat ps)"
  from rawFilterRecords_error [OF pre err, of loc ?c None post]
  obtain c' where stop: "rawFilterRecords e f loc (?c, None) (pre @ r # post) = ((c', Some er), False)"
    by blast
  then have "requestPages (Page (pre @ r # post) # rest) (rawFilterRecords e f loc) (?c, None) =
      ((c', Some er), None, 1)"
    by simp
  then have "requestPages (map Page ps @ Page (pre @ r # post) # rest)
      (rawFilterRecords e f loc) ([], None) = ((c', Some er), None, length ps + 1)"
    by (simp only: pages_continue [OF ok]) simp
  with loc pages show ?thesis
    by (simp add: rawFilter_def DescribeInstanceTypesPages_def)
qed

lemma rawFilter_request_failure:
  assumes loc: "RetrieveInstanceTypesSupportedInLocation ec2 (locationOf f) = (Inr loc, calls)"
    and pages: "InstanceTypesResponses ec2 = map Page ps @ RequestFailure er # rest"
    and ok: "\<forall>p \<in> set ps. \<forall>i \<in> set p. \<not> isl (dispatch e f i)"
  shows "rawFilter e ec2 f = (Inl er, calls @ [InstanceTypesCall (length ps + 1)])"
proof -
  let ?c = "foldl (decide e f loc) [] (concat ps)"
  have "requestPages (map Page ps @ RequestFailure er # rest)
      (rawFilterRecords e f loc) ([], None) = ((?c, None), Some er, length ps + 1)"
    by (simp only: pages_continue [OF ok]) simp
  with loc pages show ?thesis
    by (simp add: rawFilter_def DescribeInstanceTypesPages_def)
qed

lemma offeringsPage_continue: "snd (offeringsPage m p)"
  by (simp add: offeringsPage_def)

lemma Retrieve_request_failure:
  assumes "zone \<noteq> []" "locationTypeOf zone = Some t"
    and "InstanceTypeOfferingsResponses ec2
           \<lparr>InputFilters = [(locationFilterKey, [zone])], LocationType = Some t\<rparr> =
         map Page ps @ RequestFailure er # rest"
  shows "RetrieveInstanceTypesSupportedInLocation ec2 zone =
     (Inl (ErrorfW ''Encountered an error when describing instance type offerings: '' er),
      [OfferingsCall \<lparr>InputFilters = [(locationFilterKey, [zone])], LocationType = Some t\<rparr>
         (length ps + 1)])"
proof -
  have "requestPages (map Page ps @ RequestFailure er # rest) offeringsPage Map.empty =
      (foldl (\<lambda>s p. fst (offeringsPage s p)) Map.empty ps, Some er, length ps + 1)"
    by (simp only: requestPages_continue [of ps offeringsPage, OF offeringsPage_continue]) simp
  with assms show ?thesis
    by (simp add: RetrieveInstanceTypesSupportedInLocation_def
        DescribeInstanceTypeOfferingsPages_def)
qed

lemma Retrieve_success:
  assumes "zone \<noteq> []" "locationTypeOf zone = Some t"
    and "InstanceTypeOfferingsResponses ec2
           \<lparr>InputFilters = [(locationFilterKey, [zone])], LocationType = Some t\<rparr> =
         map Page ps"
  shows "RetrieveInstanceTypesSupportedInLocation ec2 zone =
     (Inr (Some (foldl (\<lambda>m i. m(OfferingInstanceType i \<mapsto> Location i)) Map.empty (concat ps))),
      [OfferingsCall \<lparr>InputFilters = [(locationFilterKey, [zone])], LocationType = Some t\<rparr>
         (length ps)])"
proof -
  have "foldl (\<lambda>s p. fst (offeringsPage s p)) m ps =
      foldl (\<lambda>m i. m(OfferingInstanceType i \<mapsto> Location i)) m (concat ps)" for m
    by (induction ps arbitrary: m) (simp_all add: offeringsPage_def)
  moreover have "requestPages (map Page ps @ []) offeringsPage Map.empty =
      (foldl (\<lambda>s p. fst (offeringsPage s p)) Map.empty ps, None, length ps)"
    by (simp only: requestPages_continue [of ps offeringsPage, OF offeringsPage_continue]) simp
  ultimately show ?thesis using assms
    by (simp add: RetrieveInstanceTypesSupportedInLocation_def
        DescribeInstanceTypeOfferingsPages_def)
qed

subsection \<open>Dispatch errors\<close>

lemma dispatch_error_kind:
  "dispatch e f i = Inl er \<Longrightarrow>
     \<exists>n. er = UnableToProcess n (InstanceType i) \<or> er = NoFilterHandlerFound n (InstanceType i)"
  unfolding dispatch_def by (rule executeFilters_error_kind)

lemma gpu_dispatch:
  "dispatch mismatchEnv gpusUpTo4 m5_large = Inr True \<and>
   dispatch mismatchEnv gpusUpTo4 m5_xlarge = Inr True \<and>
   dispatch mismatchEnv gpusUpTo4 t3_micro = Inr True \<and>
   dispatch mismatchEnv gpusUpTo4 p3_2xlarge = Inl (UnableToProcess ''gpusRange'' ''p3.2xlarge'')"
  by code_simp

lemma locationOf_gpusUpTo4: "locationOf gpusUpTo4 = []"
  by (simp add: locationOf_def gpusUpTo4_def noFilters_def)

text \<open>
  C2. When filter dispatch reports an error on a record, and on no record before it,
  \<open>rawFilter\<close> returns that error and no candidate list, whatever follows the
  record on its page and whatever the remaining responses are: the page of the
  record is the last page requested. \<open>FilterVerbose\<close> returns the same error. The
  error is one of the two that \<open>executeFilters\<close> makes for a filter value paired
  with an instance spec it has no comparator for.
\<close>

theorem dispatch_error_aborts:
  assumes "RetrieveInstanceTypesSupportedInLocation ec2 (locationOf f) = (Inr loc, calls)"
    and "InstanceTypesResponses ec2 = map Page ps @ Page (pre @ r # post) # rest"
    and "\<forall>p \<in> set ps. \<forall>i \<in> set p. \<not> isl (dispatch e f i)"
    and "\<forall>i \<in> set pre. \<not> isl (dispatch e f i)"
    and "dispatch e f r = Inl er"
  shows "rawFilter e ec2 f = (Inl er, calls @ [InstanceTypesCall (length ps + 1)]) \<and>
         FilterVerbose e ec2 f = (Inr (Inl er), calls @ [InstanceTypesCall (length ps + 1)]) \<and>
         (\<exists>n. er = UnableToProcess n (InstanceType r) \<or>
              er = NoFilterHandlerFound n (InstanceType r))"
  using rawFilter_dispatch_error [OF assms] dispatch_error_kind [OF assms(5)]
    entry_points_error [of e ec2 f er "calls @ [InstanceTypesCall (length ps + 1)]"]
  by simp

theorem dispatch_error_aborts_witness:
  "RetrieveInstanceTypesSupportedInLocation gpuCatalog (locationOf gpusUpTo4) = (Inr None, []) \<and>
   InstanceTypesResponses gpuCatalog =
     map Page [[m5_large, m5_xlarge]] @ Page ([t3_micro] @ p3_2xlarge # [m5_large]) #
       [RequestFailure (AWSError ''RequestLimitExceeded'')] \<and>
   dispatch mismatchEnv gpusUpTo4 m5_large = Inr True \<and>
   dispatch mismatchEnv gpusUpTo4 m5_xlarge = Inr True \<and>
   dispatch mismatchEnv gpusUpTo4 t3_micro = Inr True \<and>
   dispatch mismatchEnv gpusUpTo4 p3_2xlarge = Inl (UnableToProcess ''gpusRange'' ''p3.2xlarge'') \<and>
   rawFilter mismatchEnv gpuCatalog gpusUpTo4 =
     (Inl (UnableToProcess ''gpusRange'' ''p3.2xlarge''), [InstanceTypesCall 2]) \<and>
   FilterVerbose mismatchEnv gpuCatalog gpusUpTo4 =
     (Inr (Inl (UnableToProcess ''gpusRange'' ''p3.2xlarge'')), [InstanceTypesCall 2])"
  using dispatch_error_aborts [of gpuCatalog gpusUpTo4 None "[]" "[[m5_large, m5_xlarge]]"
      "[t3_micro]" p3_2xlarge "[m5_large]" "[RequestFailure (AWSError ''RequestLimitExceeded'')]"
      mismatchEnv "UnableToProcess ''gpusRange'' ''p3.2xlarge''"]
    gpu_dispatch locationOf_gpusUpTo4 Retrieve_empty [of gpuCatalog]
  by (simp add: gpuCatalog_def)

lemma dispatch_error_anywhere:
  assumes loc: "RetrieveInstanceTypesSupportedInLocation ec2 (locationOf f) = (Inr loc, calls)"
    and pages: "InstanceTypesResponses ec2 = map Page ps @ rest"
    and bad: "\<exists>p \<in> set ps. \<exists>i \<in> set p. isl (dispatch e f i)"
  shows "\<exists>er k. rawFilter e ec2 f = (Inl er, calls @ [InstanceTypesCall k]) \<and> k \<le> length ps \<and>
           (\<exists>i \<in> set (concat ps). dispatch e f i = Inl er)"
proof -
  from bad obtain ps1 p ps2 where ps: "ps = ps1 @ p # ps2"
    and p: "\<exists>i \<in> set p. isl (dispatch e f i)"
    and ps1: "\<forall>q \<in> set ps1. \<not> (\<exists>i \<in> set q. isl (dispatch e f i))"
    using split_list_first_prop [of ps "\<lambda>p. \<exists>i \<in> set p. isl (dispatch e f i)"] by blast
  from p obtain pre r post where p': "p = pre @ r # post" and r: "isl (dispatch e f r)"
    and pre: "\<forall>i \<in> set pre. \<not> isl (dispatch e f i)"
    using split_list_first_prop [of p "\<lambda>i. isl (dispatch e f i)"] by blast
  from r obtain er where er: "dispatch e f r = Inl er"
    by (cases "dispatch e f r") auto
  from pages ps p'
  have "InstanceTypesResponses ec2 = map Page ps1 @ Page (pre @ r # post) # (map Page ps2 @ rest)"
    by simp
  from rawFilter_dispatch_error [OF loc this _ pre er] ps1
  have "rawFilter e ec2 f = (Inl er, calls @ [InstanceTypesCall (length ps1 + 1)])"
    by blast
  moreover from ps have "length ps1 + 1 \<le> length ps" by simp
  moreover from ps p' er have "\<exists>i \<in> set (concat ps). dispatch e f i = Inl er" by auto
  ultimately show ?thesis by blast
qed

subsection \<open>The full catalog\<close>

lemma keeps_allNil:
  assumes "rangeIsPermutation e" "allNil f"
  shows "keeps e f None i"
  using dispatch_allNil [OF assms] by (simp add: keeps_def isSupportedInLocation_def)

lemma allNil_noFilters: "allNil noFilters"
  by (simp add: allNil_def noFilters_def)

lemma sort_twoPages:
  "sortInstanceTypeInfo (concat [[t3_micro, m5_xlarge], [m5_large]]) =
     [m5_large, m5_xlarge, t3_micro]"
  by code_simp

lemma names_twoPages:
  "distinct (map InstanceType (concat [[t3_micro, m5_xlarge], [m5_large]]))"
  by code_simp

text \<open>
  C5. With every filter nil and the empty location, on a catalog whose requests all
  succeed and whose names are unique, \<open>rawFilter\<close> returns the whole catalog,
  sorted ascending by name, whatever order the runtime visits the maps in; and so
  does \<open>FilterVerbose\<close> when no maximum is requested.
\<close>

theorem no_filters_full_catalog:
  assumes "rangeIsPermutation e" and "allNil f" and "locationOf f = []"
    and "InstanceTypesResponses ec2 = map Page ps"
    and "distinct (map InstanceType (concat ps))"
  shows "rawFilter e ec2 f =
           (Inr (sortInstanceTypeInfo (concat ps)), [InstanceTypesCall (length ps)]) \<and>
         mset (sortInstanceTypeInfo (concat ps)) = mset (concat ps) \<and>
         sorted_wrt (\<lambda>a b. InstanceType a < InstanceType b) (sortInstanceTypeInfo (concat ps)) \<and>
         (MaxResults f = None \<longrightarrow>
            FilterVerbose e ec2 f =
              (Inr (Inr (sortInstanceTypeInfo (concat ps))), [InstanceTypesCall (length ps)]))"
proof -
  let ?c = "foldl (decide e f None) [] (concat ps)"
  have loc: "RetrieveInstanceTypesSupportedInLocation ec2 (locationOf f) = (Inr None, [])"
    using assms(3) by (simp add: Retrieve_empty)
  have ok: "\<forall>p \<in> set ps. \<forall>i \<in> set p. \<not> isl (dispatch e f i)"
    using dispatch_allNil [OF assms(1,2)] by simp
  have "?c = [] @ map (\<lambda>i. (InstanceType i, i)) (concat ps)"
    by (rule foldl_decide_all_kept) (simp_all add: keeps_allNil [OF assms(1,2)] assms(5))
  then have vals: "map snd ?c = concat ps" by (simp add: comp_def)
  have "candidatesInv ?c"
    by (rule candidatesInv_foldl) (simp add: candidatesInv_def)
  with assms(1) have "sortInstanceTypeInfo (map snd (rangeCandidates e ?c)) =
      sortInstanceTypeInfo (map snd ?c)"
    by (rule sort_rangeCandidates)
  with rawFilter_success [OF loc assms(4) ok] vals
  have raw: "rawFilter e ec2 f =
      (Inr (sortInstanceTypeInfo (concat ps)), [InstanceTypesCall (length ps)])"
    by simp
  moreover from raw have "MaxResults f = None \<longrightarrow>
      FilterVerbose e ec2 f =
        (Inr (Inr (sortInstanceTypeInfo (concat ps))), [InstanceTypesCall (length ps)])"
    by (simp add: FilterVerbose_def truncateResults_absent)
  ultimately show ?thesis
    using mset_sortInstanceTypeInfo [of "concat ps"] strict_sortInstanceTypeInfo [OF assms(5)]
    by blast
qed

theorem no_filters_full_catalog_witness:
  "rangeIsPermutation specEnv \<and> allNil noFilters \<and> locationOf noFilters = [] \<and>
   InstanceTypesResponses twoPages = map Page [[t3_micro, m5_xlarge], [m5_large]] \<and>
   distinct (map InstanceType (concat [[t3_micro, m5_xlarge], [m5_large]])) \<and>
   MaxResults noFilters = None \<and>
   rawFilter specEnv twoPages noFilters =
     (Inr [m5_large, m5_xlarge, t3_micro], [InstanceTypesCall 2]) \<and>
   FilterVerbose specEnv twoPages noFilters =
     (Inr (Inr [m5_large, m5_xlarge, t3_micro]), [InstanceTypesCall 2])"
  using no_filters_full_catalog [of specEnv noFilters twoPages "[[t3_micro, m5_xlarge], [m5_large]]"]
    rangeIsPermutation_specEnv allNil_noFilters sort_twoPages names_twoPages
  by (simp add: locationOf_def noFilters_def twoPages_def)

subsection \<open>Failed requests\<close>

text \<open>
  C8, as stated, fails: a failed catalog request is returned to the caller as it
  is, it wraps nothing and nothing wraps it.
\<close>

theorem catalog_error_not_wrapped:
  "InstanceTypesResponses catalogFails =
     [Page [m5_large], RequestFailure (AWSError ''RequestLimitExceeded''), Page [t3_micro]] \<and>
   rawFilter specEnv catalogFails noFilters =
     (Inl (AWSError ''RequestLimitExceeded''), [InstanceTypesCall 2]) \<and>
   Unwrap (AWSError ''RequestLimitExceeded'') = None"
  by code_simp

lemma use1_az1: "locationTypeOf ''use1-az1'' = Some zoneIDLocationType"
  by code_simp

lemma locationOf_inZone: "locationOf inZone = ''use1-az1''"
  by (simp add: locationOf_def inZone_def noFilters_def)

lemma dispatch_m5_large: "dispatch specEnv noFilters m5_large = Inr True"
  by code_simp

text \<open>
  C8, amended. A failed offerings request aborts \<open>rawFilter\<close> with the error wrapped
  by the message of \<open>RetrieveInstanceTypesSupportedInLocation\<close>, and the catalog is
  not requested. A failed catalog request, with no dispatch error before it, aborts
  \<open>rawFilter\<close> and \<open>FilterVerbose\<close> with the error itself. Neither returns a
  candidate list.
\<close>

theorem paging_errors_abort:
  "(zone \<noteq> [] \<and> locationOf f = zone \<and> locationTypeOf zone = Some t \<and>
    InstanceTypeOfferingsResponses ec2
      \<lparr>InputFilters = [(locationFilterKey, [zone])], LocationType = Some t\<rparr> =
      map Page ops @ RequestFailure er # orest \<longrightarrow>
    rawFilter e ec2 f =
      (Inl (ErrorfW ''Encountered an error when describing instance type offerings: '' er),
       [OfferingsCall \<lparr>InputFilters = [(locationFilterKey, [zone])], LocationType = Some t\<rparr>
          (length ops + 1)]) \<and>
    Unwrap (ErrorfW ''Encountered an error when describing instance type offerings: '' er) =
      Some er) \<and>
   (RetrieveInstanceTypesSupportedInLocation ec2' (locationOf f') = (Inr loc, calls) \<and>
    InstanceTypesResponses ec2' = map Page ps @ RequestFailure er' # rest \<and>
    (\<forall>p \<in> set ps. \<forall>i \<in> set p. \<not> isl (dispatch e f' i)) \<longrightarrow>
    rawFilter e ec2' f' = (Inl er', calls @ [InstanceTypesCall (length ps + 1)]) \<and>
    FilterVerbose e ec2' f' = (Inr (Inl er'), calls @ [InstanceTypesCall (length ps + 1)]))"
proof (intro conjI impI)
  assume a: "zone \<noteq> [] \<and> locationOf f = zone \<and> locationTypeOf zone = Some t \<and>
    InstanceTypeOfferingsResponses ec2
      \<lparr>InputFilters = [(locationFilterKey, [zone])], LocationType = Some t\<rparr> =
      map Page ops @ RequestFailure er # orest"
  then have "RetrieveInstanceTypesSupportedInLocation ec2 (locationOf f) =
      (Inl (ErrorfW ''Encountered an error when describing instance type offerings: '' er),
       [OfferingsCall \<lparr>InputFilters = [(locationFilterKey, [zone])], LocationType = Some t\<rparr>
          (length ops + 1)])"
    using Retrieve_request_failure [of zone t ec2 ops er orest] by simp
  then show "rawFilter e ec2 f =
      (Inl (ErrorfW ''Encountered an error when describing instance type offerings: '' er),
       [OfferingsCall \<lparr>InputFilters = [(locationFilterKey, [zone])], LocationType = Some t\<rparr>
          (length ops + 1)])"
    by (rule rawFilter_location_error)
  show "Unwrap (ErrorfW ''Encountered an error when describing instance type offerings: '' er) =
      Some er"
    by simp
next
  assume b: "RetrieveInstanceTypesSupportedInLocation ec2' (locationOf f') = (Inr loc, calls) \<and>
    InstanceTypesResponses ec2' = map Page ps @ RequestFailure er' # rest \<and>
    (\<forall>p \<in> set ps. \<forall>i \<in> set p. \<not> isl (dispatch e f' i))"
  then have raw: "rawFilter e ec2' f' = (Inl er', calls @ [InstanceTypesCall (length ps + 1)])"
    using rawFilter_request_failure [of ec2' f' loc calls ps er' rest e] by blast
  then show "rawFilter e ec2' f' = (Inl er', calls @ [InstanceTypesCall (length ps + 1)])" .
  from raw show "FilterVerbose e ec2' f' =
      (Inr (Inl er'), calls @ [InstanceTypesCall (length ps + 1)])"
    using entry_points_error by blast
qed

theorem paging_errors_abort_witness:
  "''use1-az1'' \<noteq> [] \<and> locationOf inZone = ''use1-az1'' \<and>
   locationTypeOf ''use1-az1'' = Some zoneIDLocationType \<and>
   InstanceTypeOfferingsResponses offeringsFail
     \<lparr>InputFilters = [(locationFilterKey, [''use1-az1''])],
      LocationType = Some zoneIDLocationType\<rparr> =
     map Page [[\<lparr>OfferingInstanceType = ''m5.large'', Location = ''use1-az1''\<rparr>]] @
       RequestFailure (AWSError ''RequestLimitExceeded'') # [] \<and>
   rawFilter specEnv offeringsFail inZone =
     (Inl (ErrorfW ''Encountered an error when describing instance type offerings: ''
             (AWSError ''RequestLimitExceeded'')),
      [OfferingsCall
         \<lparr>InputFilters = [(locationFilterKey, [''use1-az1''])],
          LocationType = Some zoneIDLocationType\<rparr> 2]) \<and>
   RetrieveInstanceTypesSupportedInLocation catalogFails (locationOf noFilters) = (Inr None, []) \<and>
   InstanceTypesResponses catalogFails =
     map Page [[m5_large]] @ RequestFailure (AWSError ''RequestLimitExceeded'') # [Page [t3_micro]] \<and>
   dispatch specEnv noFilters m5_large = Inr True \<and>
   rawFilter specEnv catalogFails noFilters =
     (Inl (AWSError ''RequestLimitExceeded''), [InstanceTypesCall 2]) \<and>
   FilterVerbose specEnv catalogFails noFilters =
     (Inr (Inl (AWSError ''RequestLimitExceeded'')), [InstanceTypesCall 2])"
  using paging_errors_abort [of "''use1-az1''" inZone zoneIDLocationType offeringsFail
      "[[\<lparr>OfferingInstanceType = ''m5.large'', Location = ''use1-az1''\<rparr>]]"
      "AWSError ''RequestLimitExceeded''" "[]" specEnv
      catalogFails noFilters None "[]" "[[m5_large]]" "AWSError ''RequestLimitExceeded''"
      "[Page [t3_micro]]"]
    use1_az1 locationOf_inZone dispatch_m5_large Retrieve_empty [of catalogFails]
  by (simp add: offeringsFail_def catalogFails_def locationOf_def noFilters_def)

subsection \<open>A name that comes twice\<close>

text \<open>
  C9, as stated, fails: the first page removes the record named \<open>t3.micro\<close>, which
  fails the filter, and the record of that name on the second page, which passes, is
  in the result.
\<close>

theorem reinserted_on_later_page:
  "InstanceType t3_micro_fixed = InstanceType t3_micro \<and>
   InstanceTypesResponses nameTwice = [Page [t3_micro_fixed, m5_large], Page [t3_micro]] \<and>
   dispatch specEnv burstableOnly t3_micro_fixed = Inr False \<and>
   rawFilterRecords specEnv burstableOnly None ([], None) [t3_micro_fixed, m5_large] =
     (([], None), True) \<and>
   rawFilter specEnv nameTwice burstableOnly = (Inr [t3_micro], [InstanceTypesCall 2])"
  by code_simp

lemma burstable_dispatch:
  "dispatch specEnv burstableOnly t3_micro_fixed = Inr False \<and>
   dispatch specEnv burstableOnly m5_large = Inr False \<and>
   dispatch specEnv burstableOnly t3_micro = Inr True"
  by code_simp

lemma nameTwice_last:
  "lastNamed (concat [[t3_micro_fixed, m5_large], [t3_micro]]) (InstanceType t3_micro) =
     Some t3_micro \<and>
   lastNamed (concat [[t3_micro_fixed, m5_large], [t3_micro]]) (InstanceType t3_micro_fixed) \<noteq>
     Some t3_micro_fixed"
  by code_simp

lemma locationOf_burstableOnly: "locationOf burstableOnly = []"
  by (simp add: locationOf_def burstableOnly_def noFilters_def)

text \<open>
  C9, amended. Every record is decided when it arrives, whatever happened to its name
  before: when paging ends without an error, the result holds exactly the records
  that are the last of their name in the catalog and pass the location check and the
  filters, sorted ascending by name.
\<close>

theorem last_record_decides:
  assumes "rangeIsPermutation e"
    and "RetrieveInstanceTypesSupportedInLocation ec2 (locationOf f) = (Inr loc, calls)"
    and "InstanceTypesResponses ec2 = map Page ps"
    and "\<forall>p \<in> set ps. \<forall>i \<in> set p. \<not> isl (dispatch e f i)"
  shows "\<exists>xs. rawFilter e ec2 f = (Inr xs, calls @ [InstanceTypesCall (length ps)]) \<and>
           (\<forall>i. i \<in> set xs \<longleftrightarrow>
                  lastNamed (concat ps) (InstanceType i) = Some i \<and> keeps e f loc i) \<and>
           sorted_wrt (\<lambda>a b. InstanceType a < InstanceType b) xs"
proof -
  let ?c = "foldl (decide e f loc) [] (concat ps)"
  let ?xs = "sortInstanceTypeInfo (map snd ?c)"
  have inv: "candidatesInv ?c"
    by (rule candidatesInv_foldl) (simp add: candidatesInv_def)
  with assms(1) have "sortInstanceTypeInfo (map snd (rangeCandidates e ?c)) = ?xs"
    by (rule sort_rangeCandidates)
  with rawFilter_success [OF assms(2,3,4)]
  have "rawFilter e ec2 f = (Inr ?xs, calls @ [InstanceTypesCall (length ps)])"
    by simp
  moreover have "\<forall>i. i \<in> set ?xs \<longleftrightarrow>
      lastNamed (concat ps) (InstanceType i) = Some i \<and> keeps e f loc i"
    by (simp only: set_sortInstanceTypeInfo values_foldl_decide) simp
  moreover have "sorted_wrt (\<lambda>a b. InstanceType a < InstanceType b) ?xs"
    using candidatesInv_names [OF inv] by (rule strict_sortInstanceTypeInfo)
  ultimately show ?thesis by blast
qed

theorem last_record_decides_witness:
  "rangeIsPermutation specEnv \<and>
   RetrieveInstanceTypesSupportedInLocation nameTwice (locationOf burstableOnly) =
     (Inr None, []) \<and>
   InstanceTypesResponses nameTwice = map Page [[t3_micro_fixed, m5_large], [t3_micro]] \<and>
   dispatch specEnv burstableOnly t3_micro_fixed = Inr False \<and>
   dispatch specEnv burstableOnly m5_large = Inr False \<and>
   dispatch specEnv burstableOnly t3_micro = Inr True \<and>
   (\<exists>xs. rawFilter specEnv nameTwice burstableOnly = (Inr xs, [] @ [InstanceTypesCall 2]) \<and>
      t3_micro \<in> set xs \<and> t3_micro_fixed \<notin> set xs \<and>
      sorted_wrt (\<lambda>a b. InstanceType a < InstanceType b) xs)"
proof -
  have h1: "RetrieveInstanceTypesSupportedInLocation nameTwice (locationOf burstableOnly) =
      (Inr None, [])"
    by (simp add: locationOf_burstableOnly Retrieve_empty)
  have h2: "InstanceTypesResponses nameTwice = map Page [[t3_micro_fixed, m5_large], [t3_micro]]"
    by (simp add: nameTwice_def)
  have h3: "\<forall>p \<in> set [[t3_micro_fixed, m5_large], [t3_micro]].
      \<forall>i \<in> set p. \<not> isl (dispatch specEnv burstableOnly i)"
    using burstable_dispatch by simp
  have k: "keeps specEnv burstableOnly None t3_micro"
    using burstable_dispatch by (simp add: keeps_def isSupportedInLocation_def)
  from last_record_decides [OF rangeIsPermutation_specEnv h1 h2 h3]
  obtain xs where "rawFilter specEnv nameTwice burstableOnly = (Inr xs, [] @ [InstanceTypesCall 2])"
    and "\<forall>i. i \<in> set xs \<longleftrightarrow>
      lastNamed (concat [[t3_micro_fixed, m5_large], [t3_micro]]) (InstanceType i) = Some i \<and>
      keeps specEnv burstableOnly None i"
    and "sorted_wrt (\<lambda>a b. InstanceType a < InstanceType b) xs"
    by auto
  with nameTwice_last k rangeIsPermutation_specEnv h1 h2 burstable_dispatch
  show ?thesis by blast
qed

end
